theory Spec2Isabelle
  imports Complex_Main "HOL-Library.Log_Nat"
begin

section \<open>Spectrogram of seismograms: FFT size, window plan, scaling, axis bins\<close>

text \<open>
  A shallow embedding of \<^verbatim>\<open>obspy/imaging/spectrogram.py\<close>: the function
  \<^verbatim>\<open>nearestPow2\<close> and the numerical part of \<^verbatim>\<open>spectrogram\<close>
  (window plan, call of the short-time estimator, amplitude scaling, clip
  validation, colour bounds, half-bin widths, bin edges or extent).

  Python floats are modelled with exact real arithmetic, extended by the three
  special values that the code can produce (\<open>inf\<close>, \<open>-inf\<close>, \<open>nan\<close>). The
  range of binary64 is modelled where the code meets it: \<^verbatim>\<open>math.pow\<close> raises
  above the largest float and gives zero below the smallest one, and an integer
  argument is rounded to 53 significant bits when it is converted to a float. The
  rounding of the other float operations is not modelled. The module is Python 2
  code: \<^verbatim>\<open>math.ceil\<close> and \<^verbatim>\<open>math.floor\<close> return floats and hand
  infinities and \<open>nan\<close> through.
\<close>

subsection \<open>Python floats and errors\<close>

datatype pyfloat = Fin real | PInf | NInf | NaN

datatype error =
    ValueError string
  | OverflowError
  | IndexError
  | ZeroDivisionError
  | AttributeError

text \<open>A number handed to a function: a Python integer or a float.\<close>

datatype pynum = PyInt int | PyFloat real

text \<open>The conversion of an integer to binary64: the nearest number with 53
  significant bits, a tie going to the even significand. It is used below
  \<open>2 ^ 64\<close> only, where the result is in the range of binary64.\<close>

definition int_to_double :: "int \<Rightarrow> real" where
  "int_to_double n =
     (let m = \<bar>n\<bar>;
          s = nat (bitlen m - 53);
          q = m div 2 ^ s;
          r = m mod 2 ^ s;
          q1 = (if 2 ^ s < 2 * r \<or> (2 * r = 2 ^ s \<and> odd q) then q + 1 else q)
      in of_int (sgn n * (q1 * 2 ^ s)))"

text \<open>The float that the arithmetic of line 56 computes with.\<close>

definition as_float :: "pynum \<Rightarrow> real" where
  "as_float x = (case x of PyInt n \<Rightarrow> int_to_double n | PyFloat r \<Rightarrow> r)"

text \<open>\<^verbatim>\<open>numpy.log2\<close>: \<open>-inf\<close> at zero, \<open>nan\<close> below zero.\<close>

fun np_log2 :: "pyfloat \<Rightarrow> pyfloat" where
  "np_log2 (Fin x) = (if 0 < x then Fin (log 2 x) else if x = 0 then NInf else NaN)"
| "np_log2 PInf = PInf"
| "np_log2 NInf = NaN"
| "np_log2 NaN = NaN"

text \<open>\<^verbatim>\<open>numpy.log10\<close>, the same way.\<close>

fun np_log10 :: "pyfloat \<Rightarrow> pyfloat" where
  "np_log10 (Fin x) = (if 0 < x then Fin (log 10 x) else if x = 0 then NInf else NaN)"
| "np_log10 PInf = PInf"
| "np_log10 NInf = NaN"
| "np_log10 NaN = NaN"

text \<open>\<^verbatim>\<open>numpy.sqrt\<close>: \<open>nan\<close> below zero.\<close>

fun np_sqrt :: "pyfloat \<Rightarrow> pyfloat" where
  "np_sqrt (Fin x) = (if 0 \<le> x then Fin (sqrt x) else NaN)"
| "np_sqrt PInf = PInf"
| "np_sqrt NInf = NaN"
| "np_sqrt NaN = NaN"

fun math_ceil :: "pyfloat \<Rightarrow> pyfloat" where
  "math_ceil (Fin x) = Fin (of_int \<lceil>x\<rceil>)"
| "math_ceil PInf = PInf"
| "math_ceil NInf = NInf"
| "math_ceil NaN = NaN"

fun math_floor :: "pyfloat \<Rightarrow> pyfloat" where
  "math_floor (Fin x) = Fin (of_int \<lfloor>x\<rfloor>)"
| "math_floor PInf = PInf"
| "math_floor NInf = NInf"
| "math_floor NaN = NaN"

text \<open>\<^verbatim>\<open>numpy.log2\<close> of the argument of \<^verbatim>\<open>nearestPow2\<close>. An integer in
  the range of \<^verbatim>\<open>int64\<close> or \<^verbatim>\<open>uint64\<close> is converted to binary64; any other
  integer becomes an object array, on which the function fails (with
  \<^verbatim>\<open>AttributeError\<close> under Python 2).\<close>

definition np_log2_arg :: "pynum \<Rightarrow> error + pyfloat" where
  "np_log2_arg x =
     (case x of
        PyFloat r \<Rightarrow> Inr (np_log2 (Fin r))
      | PyInt n \<Rightarrow>
          if - (2 ^ 63) \<le> n \<and> n < 2 ^ 64 then Inr (np_log2 (Fin (int_to_double n)))
          else Inl AttributeError)"

text \<open>\<^verbatim>\<open>math.pow(2, y)\<close>: \<^verbatim>\<open>OverflowError\<close> when the power is beyond the
  largest binary64 (\<open>2 ^ 1024\<close> and above), zero without an error when it is below
  the smallest one (\<open>2 ^ -1075\<close> and below).\<close>

fun math_pow2 :: "pyfloat \<Rightarrow> error + pyfloat" where
  "math_pow2 (Fin y) =
     (if 1024 \<le> y then Inl OverflowError
      else if y \<le> - 1075 then Inr (Fin 0)
      else Inr (Fin (2 powr y)))"
| "math_pow2 PInf = Inr PInf"
| "math_pow2 NInf = Inr (Fin 0)"
| "math_pow2 NaN = Inr NaN"

fun fsub :: "pyfloat \<Rightarrow> pyfloat \<Rightarrow> pyfloat" where
  "fsub NaN _ = NaN"
| "fsub _ NaN = NaN"
| "fsub (Fin a) (Fin b) = Fin (a - b)"
| "fsub (Fin a) PInf = NInf"
| "fsub (Fin a) NInf = PInf"
| "fsub PInf PInf = NaN"
| "fsub PInf _ = PInf"
| "fsub NInf NInf = NaN"
| "fsub NInf _ = NInf"

fun fabs :: "pyfloat \<Rightarrow> pyfloat" where
  "fabs (Fin a) = Fin \<bar>a\<bar>"
| "fabs PInf = PInf"
| "fabs NInf = PInf"
| "fabs NaN = NaN"

text \<open>The comparison \<open><\<close>: false as soon as one side is \<open>nan\<close>.\<close>

fun fless :: "pyfloat \<Rightarrow> pyfloat \<Rightarrow> bool" where
  "fless NaN _ = False"
| "fless _ NaN = False"
| "fless (Fin a) (Fin b) = (a < b)"
| "fless (Fin a) PInf = True"
| "fless (Fin a) NInf = False"
| "fless PInf _ = False"
| "fless NInf NInf = False"
| "fless NInf _ = True"

text \<open>The comparison \<open>>=\<close>, false as well as soon as one side is \<open>nan\<close>.\<close>

fun fge :: "pyfloat \<Rightarrow> pyfloat \<Rightarrow> bool" where
  "fge NaN _ = False"
| "fge _ NaN = False"
| "fge a b = (\<not> fless a b)"

text \<open>\<^verbatim>\<open>int(x)\<close> of a float: truncation towards zero; \<open>nan\<close> and the
  infinities raise.\<close>

fun py_int :: "pyfloat \<Rightarrow> error + int" where
  "py_int (Fin x) = Inr (if 0 \<le> x then \<lfloor>x\<rfloor> else \<lceil>x\<rceil>)"
| "py_int NaN = Inl (ValueError ''cannot convert float NaN to integer'')"
| "py_int PInf = Inl OverflowError"
| "py_int NInf = Inl OverflowError"

fun fadd :: "pyfloat \<Rightarrow> pyfloat \<Rightarrow> pyfloat" where
  "fadd NaN _ = NaN"
| "fadd _ NaN = NaN"
| "fadd (Fin a) (Fin b) = Fin (a + b)"
| "fadd (Fin a) PInf = PInf"
| "fadd (Fin a) NInf = NInf"
| "fadd PInf NInf = NaN"
| "fadd PInf _ = PInf"
| "fadd NInf PInf = NaN"
| "fadd NInf _ = NInf"

text \<open>The product: zero times an infinity is \<open>nan\<close>.\<close>

fun fmul :: "pyfloat \<Rightarrow> pyfloat \<Rightarrow> pyfloat" where
  "fmul NaN _ = NaN"
| "fmul _ NaN = NaN"
| "fmul (Fin a) (Fin b) = Fin (a * b)"
| "fmul (Fin a) PInf = (if a = 0 then NaN else if 0 < a then PInf else NInf)"
| "fmul (Fin a) NInf = (if a = 0 then NaN else if 0 < a then NInf else PInf)"
| "fmul PInf (Fin b) = (if b = 0 then NaN else if 0 < b then PInf else NInf)"
| "fmul NInf (Fin b) = (if b = 0 then NaN else if 0 < b then NInf else PInf)"
| "fmul PInf PInf = PInf"
| "fmul PInf NInf = NInf"
| "fmul NInf PInf = NInf"
| "fmul NInf NInf = PInf"

text \<open>The larger and the smaller of two values as numpy's reductions take them:
  \<open>nan\<close> wins.\<close>

fun fmax :: "pyfloat \<Rightarrow> pyfloat \<Rightarrow> pyfloat" where
  "fmax NaN _ = NaN"
| "fmax _ NaN = NaN"
| "fmax a b = (if fless a b then b else a)"

fun fmin :: "pyfloat \<Rightarrow> pyfloat \<Rightarrow> pyfloat" where
  "fmin NaN _ = NaN"
| "fmin _ NaN = NaN"
| "fmin a b = (if fless b a then b else a)"

text \<open>Sequencing of steps that may raise: the first error ends the run.\<close>

fun bind :: "error + 'a \<Rightarrow> ('a \<Rightarrow> error + 'b) \<Rightarrow> error + 'b" where
  "bind (Inl e) f = Inl e"
| "bind (Inr v) f = f v"

text \<open>Python's \<open>>=\<close> on lists of integers (lexicographic).\<close>

fun list_ge :: "int list \<Rightarrow> int list \<Rightarrow> bool" where
  "list_ge _ [] = True"
| "list_ge [] (y # ys) = False"
| "list_ge (x # xs) (y # ys) = (if x = y then list_ge xs ys else y < x)"


subsection \<open>nearestPow2 (lines 40 to 59)\<close>

text \<open>
  The two candidates \<open>a\<close> and \<open>b\<close> are computed in the order of lines 54 and 55; the
  first error ends the call. The logarithm is the exact one. The code rounds it to
  binary64, which changes \<^verbatim>\<open>ceil\<close> or \<^verbatim>\<open>floor\<close> only for an argument within
  a few units in the last place of a power of two, where that power is the nearest one
  on both accounts. For a float argument between two neighbouring powers of two the
  differences of line 56 are exact in binary64.
\<close>

definition nearestPow2 :: "pynum \<Rightarrow> error + pyfloat" where
  "nearestPow2 x =
     bind (np_log2_arg x) (\<lambda>l1.
     bind (math_pow2 (math_ceil l1)) (\<lambda>a.
     bind (np_log2_arg x) (\<lambda>l2.
     bind (math_pow2 (math_floor l2)) (\<lambda>b.
     if fless (fabs (fsub a (Fin (as_float x)))) (fabs (fsub b (Fin (as_float x))))
     then Inr a else Inr b))))"

subsection \<open>The window plan (lines 112 to 129)\<close>

record window_plan =
  nfft :: int
  pad_to :: "int option"
  nlap :: int

text \<open>\<^verbatim>\<open>if not wlen: wlen = samp_rate / 100.\<close> The test is Python's truth
  test: \<open>None\<close> and a zero are both false.\<close>

definition default_wlen :: "real \<Rightarrow> real option \<Rightarrow> real" where
  "default_wlen samp_rate wlen =
     (case wlen of
        None \<Rightarrow> samp_rate / 100
      | Some w \<Rightarrow> if w = 0 then samp_rate / 100 else w)"

text \<open>The field \<open>pad_to\<close> is the value of the variable \<^verbatim>\<open>mult\<close> after line 128,
  which is handed to the estimator as \<^verbatim>\<open>pad_to\<close>.\<close>

definition segmentation ::
  "real \<Rightarrow> real \<Rightarrow> real option \<Rightarrow> real option \<Rightarrow> int \<Rightarrow> error + window_plan" where
  "segmentation samp_rate per_lap wlen mult npts =
     bind (bind (nearestPow2 (PyFloat (default_wlen samp_rate wlen * samp_rate))) py_int) (\<lambda>nfft0.
     bind (if npts < nfft0 then bind (nearestPow2 (PyFloat (of_int npts / 8))) py_int
           else Inr nfft0) (\<lambda>nfft1.
     bind (case mult of
             None \<Rightarrow> Inr None
           | Some m \<Rightarrow> bind (bind (nearestPow2 (PyFloat m)) py_int)
                        (\<lambda>k. Inr (Some (k * nfft1)))) (\<lambda>pad.
     bind (py_int (Fin (of_int nfft1 * per_lap))) (\<lambda>nlap1.
     Inr \<lparr>nfft = nfft1, pad_to = pad, nlap = nlap1\<rparr>))))"

subsection \<open>The estimator and its environment\<close>

text \<open>
  \<^verbatim>\<open>matplotlib.mlab.specgram\<close> is a library function and
  \<^verbatim>\<open>MATPLOTLIB_VERSION\<close> a constant of \<^verbatim>\<open>obspy.core.util\<close>; both are
  parameters of the model. The estimator takes the data, \<^verbatim>\<open>Fs\<close>,
  \<^verbatim>\<open>NFFT\<close>, \<^verbatim>\<open>pad_to\<close> and \<^verbatim>\<open>noverlap\<close> and gives the power grid
  (a list of rows, one per frequency), the frequencies and the times.
\<close>

type_synonym estimator =
  "real list \<Rightarrow> real \<Rightarrow> int \<Rightarrow> int option \<Rightarrow> int
     \<Rightarrow> error + (real list list \<times> real list \<times> real list)"

record env =
  MATPLOTLIB_VERSION :: "int list"
  specgram :: estimator

text \<open>What the run did besides computing its result: the calls of the estimator, with
  \<^verbatim>\<open>Fs\<close>, \<^verbatim>\<open>NFFT\<close>, \<^verbatim>\<open>pad_to\<close> and \<^verbatim>\<open>noverlap\<close>.\<close>

datatype event = Specgram real int "int option" int

text \<open>\<^verbatim>\<open>numpy.arange(0, stop, step)\<close> on integers, for a step that is not zero.\<close>

definition np_arange :: "int \<Rightarrow> int \<Rightarrow> int list" where
  "np_arange stop step =
     (if 0 < step \<and> 0 < stop
      then map (\<lambda>k. int k * step) [0..<nat ((stop + step - 1) div step)]
      else [])"

text \<open>
  The shape and the axes of what \<^verbatim>\<open>matplotlib.mlab.specgram\<close> returns for real
  data, after the library's documentation: the data are padded with zeros up to
  \<^verbatim>\<open>NFFT\<close>; \<^verbatim>\<open>pad_to\<close> is \<^verbatim>\<open>NFFT\<close> when not given; there are
  \<^verbatim>\<open>pad_to//2 + 1\<close> frequencies \<^verbatim>\<open>Fs / pad_to * i\<close>; the segments start at
  \<^verbatim>\<open>arange(0, len(x) - NFFT + 1, NFFT - noverlap)\<close> and their times are
  \<^verbatim>\<open>(start + NFFT / 2) / Fs\<close>. The powers are the parameter \<open>psd\<close> (row, column).
  An overlap that is not below \<^verbatim>\<open>NFFT\<close> is refused by the library, a transform
  length that is not positive by \<^verbatim>\<open>numpy.fft\<close>.
\<close>

definition mlab_specgram :: "(nat \<Rightarrow> nat \<Rightarrow> real) \<Rightarrow> estimator" where
  "mlab_specgram psd x Fs NFFT pad noverlap =
     (let n = max (int (length x)) NFFT;
          padded = (case pad of None \<Rightarrow> NFFT | Some p \<Rightarrow> p);
          numFreqs = nat (padded div 2 + 1);
          step = NFFT - noverlap
      in if step \<le> 0 then Inl (ValueError ''noverlap must be less than NFFT'')
         else if padded \<le> 0 then Inl (ValueError ''Invalid number of FFT data points'')
         else let ind = np_arange (n - NFFT + 1) step
              in Inr (map (\<lambda>i. map (\<lambda>j. psd i j) [0..<length ind]) [0..<numFreqs],
                      map (\<lambda>i. Fs / of_int padded * real i) [0..<numFreqs],
                      map (\<lambda>k. 1 / Fs * (of_int k + of_int NFFT / 2)) ind))"

text \<open>The shape of what the estimator returns: the rows of the grid, the length of
  the frequency vector and the length of the time vector.\<close>

definition raw_shape ::
  "error + (real list list \<times> real list \<times> real list) \<Rightarrow> error + (nat \<times> nat \<times> nat)" where
  "raw_shape r =
     (case r of
        Inl err \<Rightarrow> Inl err
      | Inr (S, freq, time) \<Rightarrow> Inr (length S, length freq, length time))"

text \<open>A power grid for examples: the same power in every cell.\<close>

definition flat_psd :: "nat \<Rightarrow> nat \<Rightarrow> real" where
  "flat_psd i j = 1"

subsection \<open>Amplitude scaling (lines 144 to 149)\<close>

text \<open>\<^verbatim>\<open>data - data.mean()\<close>.\<close>

definition detrend :: "real list \<Rightarrow> real list" where
  "detrend data = map (\<lambda>v. v - sum_list data / real (length data)) data"

text \<open>\<^verbatim>\<open>10 * np.log10(spectrogram[1:, :])\<close> or
  \<^verbatim>\<open>np.sqrt(spectrogram[1:, :])\<close>, and \<^verbatim>\<open>freq[1:]\<close>: the scaled grid and
  the frequencies that go with its rows.\<close>

definition amplitude_transform ::
  "bool \<Rightarrow> real list list \<Rightarrow> real list \<Rightarrow> pyfloat list list \<times> real list" where
  "amplitude_transform dbscale S freq =
     (if dbscale
      then map (map (\<lambda>v. fmul (Fin 10) (np_log10 (Fin v)))) (drop 1 S)
      else map (map (\<lambda>v. np_sqrt (Fin v))) (drop 1 S),
      drop 1 freq)"

subsection \<open>Colour bounds (lines 151 to 158)\<close>

definition clip_msg :: string where
  "clip_msg = ''Invalid parameters for clip option.''"

text \<open>\<^verbatim>\<open>spectrogram.max()\<close> and \<^verbatim>\<open>spectrogram.min()\<close> over all elements of
  the grid; numpy raises on an array without elements.\<close>

definition np_max :: "pyfloat list list \<Rightarrow> error + pyfloat" where
  "np_max S =
     (case concat S of
        [] \<Rightarrow> Inl (ValueError ''zero-size array to reduction operation maximum which has no identity'')
      | v # vs \<Rightarrow> Inr (foldl fmax v vs))"

definition np_min :: "pyfloat list list \<Rightarrow> error + pyfloat" where
  "np_min S =
     (case concat S of
        [] \<Rightarrow> Inl (ValueError ''zero-size array to reduction operation minimum which has no identity'')
      | v # vs \<Rightarrow> Inr (foldl fmin v vs))"

text \<open>The clip pair holds two floats; the test of line 152 is written with Python's
  comparisons. The result is the pair \<^verbatim>\<open>(vmin, vmax)\<close> handed to
  \<^verbatim>\<open>Normalize\<close>.\<close>

definition color_normalizer ::
  "pyfloat list list \<Rightarrow> pyfloat \<times> pyfloat \<Rightarrow> error + (pyfloat \<times> pyfloat)" where
  "color_normalizer S clip =
     (case clip of (vmin, vmax) \<Rightarrow>
        if fless vmin (Fin 0) \<or> fless (Fin 1) vmax \<or> fge vmin vmax
        then Inl (ValueError clip_msg)
        else bind (np_max S) (\<lambda>mx.
             bind (np_min S) (\<lambda>mn.
             let range = fsub mx mn
             in Inr (fadd mn (fmul vmin range), fadd mn (fmul vmax range)))))"

subsection \<open>Half bins, bin edges and extent (lines 166 to 200)\<close>

datatype axis =
    Edges "real list" "real list"
  | Extent real real real real

text \<open>\<^verbatim>\<open>(time[1] - time[0]) / 2.0\<close> and \<^verbatim>\<open>(freq[1] - freq[0]) / 2.0\<close>, in
  this order; an index that is out of range raises.\<close>

definition half_bins :: "real list \<Rightarrow> real list \<Rightarrow> error + (real \<times> real)" where
  "half_bins time freq =
     (if length time < 2 then Inl IndexError
      else if length freq < 2 then Inl IndexError
      else Inr ((time ! 1 - time ! 0) / 2, (freq ! 1 - freq ! 0) / 2))"

text \<open>\<open>Edges\<close> holds the time edges and the frequency edges handed to
  \<^verbatim>\<open>pcolormesh\<close>; \<open>Extent\<close> the rectangle handed to \<^verbatim>\<open>imshow\<close>.\<close>

definition axis_binner :: "bool \<Rightarrow> real list \<Rightarrow> real list \<Rightarrow> error + axis" where
  "axis_binner log_flag time freq =
     bind (half_bins time freq) (\<lambda>(halfbin_time, halfbin_freq).
       if log_flag
       then let freq1 = freq @ [last freq + 2 * halfbin_freq];
                time1 = time @ [last time + 2 * halfbin_time]
            in Inr (Edges (map (\<lambda>t. t - halfbin_time) time1)
                          (map (\<lambda>f. f - halfbin_freq) freq1))
       else Inr (Extent (time ! 0 - halfbin_time) (last time + halfbin_time)
                        (freq ! 0 - halfbin_freq) (last freq + halfbin_freq)))"

subsection \<open>spectrogram\<close>

record options =
  per_lap :: real
  wlen :: "real option"
  log_flag :: bool
  dbscale :: bool
  mult :: "real option"
  clip :: "pyfloat \<times> pyfloat"

definition defaults :: options where
  "defaults = \<lparr>per_lap = 9 / 10, wlen = None, log_flag = False, dbscale = False,
                mult = Some 8, clip = (Fin 0, Fin 1)\<rparr>"

record plot_data =
  grid :: "pyfloat list list"
  axes :: axis
  norm :: "pyfloat \<times> pyfloat"

text \<open>
  The run of \<^verbatim>\<open>spectrogram\<close> up to the drawing calls: its trace of estimator
  calls and its result. Line 132 divides by the sample rate. The creation of the
  figure (lines 160 to 164) is taken to return. In linear mode the grid is flipped
  upside down.
\<close>

definition spectrogram ::
  "env \<Rightarrow> real list \<Rightarrow> real \<Rightarrow> options \<Rightarrow> event list \<times> (error + plot_data)" where
  "spectrogram e data samp_rate opts =
     (case segmentation samp_rate (per_lap opts) (wlen opts) (mult opts) (int (length data)) of
        Inl err \<Rightarrow> ([], Inl err)
      | Inr p \<Rightarrow>
          if samp_rate = 0 then ([], Inl ZeroDivisionError)
          else
            let pad = (if list_ge (MATPLOTLIB_VERSION e) [0, 99, 0] then pad_to p else None)
            in ([Specgram samp_rate (nfft p) pad (nlap p)],
                bind (specgram e (detrend data) samp_rate (nfft p) pad (nlap p))
                  (\<lambda>(S, freq, time).
                case amplitude_transform (dbscale opts) S freq of (S1, freq1) \<Rightarrow>
                bind (color_normalizer S1 (clip opts))
                  (\<lambda>bounds.
                bind (axis_binner (log_flag opts) time freq1)
                  (\<lambda>ax.
                Inr \<lparr>grid = (if log_flag opts then S1 else rev S1),
                     axes = ax, norm = bounds\<rparr>)))))"

section \<open>Facts about nearestPow2\<close>

lemma bind_eq_Inr: "bind m f = Inr y \<longleftrightarrow> (\<exists>v. m = Inr v \<and> f v = Inr y)"
  by (cases m) simp_all

lemma bind_eq_Inl: "bind m f = Inl e \<longleftrightarrow> m = Inl e \<or> (\<exists>v. m = Inr v \<and> f v = Inl e)"
  by (cases m) simp_all

lemma log2_le_1023:
  fixes x :: real
  assumes "0 < x" "x \<le> 2 ^ 1023"
  shows "log 2 x \<le> 1023"
proof -
  have "x \<le> 2 powr 1023" using assms(2) by simp
  then show ?thesis using assms(1) by (simp only: log_le_iff [of 2 x 1023, OF _ assms(1)] one_less_numeral_iff semiring_norm)
qed

lemma log2_ge_m1074:
  fixes x :: real
  assumes "2 powr (- 1074) \<le> x"
  shows "- 1074 \<le> log 2 x"
proof -
  have "(0::real) < 2 powr (- 1074)" by (rule powr_gt_zero [THEN iffD2]) simp
  then have pos: "0 < x" using assms by linarith
  have one: "(1::real) < 2" by simp
  show ?thesis using assms unfolding le_log_iff [OF one pos] .
qed

lemma in_range_pos:
  fixes x :: real
  assumes "2 powr (- 1074) \<le> x"
  shows "0 < x"
proof -
  have "(0::real) < 2 powr (- 1074)" by (rule powr_gt_zero [THEN iffD2]) simp
  then show ?thesis using assms by linarith
qed

lemma math_pow2_in_range:
  assumes "- 1074 \<le> k" "k \<le> 1023"
  shows "math_pow2 (Fin (of_int k)) = Inr (Fin (2 powr of_int k))"
  using assms by simp

lemma nearestPow2_pos:
  assumes "2 powr (- 1074) \<le> x" "x \<le> 2 ^ 1023"
  shows "nearestPow2 (PyFloat x) =
     Inr (Fin (if \<bar>2 powr of_int \<lceil>log 2 x\<rceil> - x\<bar> < \<bar>2 powr of_int \<lfloor>log 2 x\<rfloor> - x\<bar>
               then 2 powr of_int \<lceil>log 2 x\<rceil> else 2 powr of_int \<lfloor>log 2 x\<rfloor>))"
proof -
  have pos: "0 < x" by (rule in_range_pos [OF assms(1)])
  have lo: "- 1074 \<le> log 2 x" by (rule log2_ge_m1074 [OF assms(1)])
  have hi: "log 2 x \<le> 1023" by (rule log2_le_1023 [OF pos assms(2)])
  have f1: "- 1074 \<le> \<lfloor>log 2 x\<rfloor>" using lo by linarith
  have f2: "\<lfloor>log 2 x\<rfloor> \<le> 1023" using hi by linarith
  have c1: "- 1074 \<le> \<lceil>log 2 x\<rceil>" using lo by linarith
  have c2: "\<lceil>log 2 x\<rceil> \<le> 1023" using hi by linarith
  have l: "np_log2_arg (PyFloat x) = Inr (Fin (log 2 x))"
    using pos by (simp add: np_log2_arg_def)
  have a: "math_pow2 (math_ceil (Fin (log 2 x))) = Inr (Fin (2 powr of_int \<lceil>log 2 x\<rceil>))"
    using math_pow2_in_range [OF c1 c2] by simp
  have b: "math_pow2 (math_floor (Fin (log 2 x))) = Inr (Fin (2 powr of_int \<lfloor>log 2 x\<rfloor>))"
    using math_pow2_in_range [OF f1 f2] by simp
  show ?thesis
    unfolding nearestPow2_def l bind.simps a b by (simp add: as_float_def)
qed

lemma pow2_floor_le:
  assumes "0 < x"
  shows "2 powr of_int \<lfloor>log 2 x\<rfloor> \<le> x"
proof -
  have "2 powr of_int \<lfloor>log 2 x\<rfloor> \<le> 2 powr log 2 x"
    by (rule powr_mono) simp_all
  then show ?thesis using assms by simp
qed

lemma pow2_ceiling_ge:
  assumes "0 < x"
  shows "x \<le> 2 powr of_int \<lceil>log 2 x\<rceil>"
proof -
  have "2 powr log 2 x \<le> 2 powr of_int \<lceil>log 2 x\<rceil>"
    by (rule powr_mono) simp_all
  then show ?thesis using assms by simp
qed

lemma pow2_ceiling_lt_twice:
  assumes "0 < x"
  shows "2 powr of_int \<lceil>log 2 x\<rceil> < 2 * x"
proof -
  have "real_of_int \<lceil>log 2 x\<rceil> < log 2 x + 1" by linarith
  then have "2 powr of_int \<lceil>log 2 x\<rceil> < 2 powr (log 2 x + 1)"
    by (intro powr_less_mono) simp_all
  also have "\<dots> = 2 * x" using assms by (simp add: powr_add)
  finally show ?thesis .
qed

lemma pow2_int_below:
  fixes j :: int
  assumes "j \<le> \<lfloor>log 2 x\<rfloor>"
  shows "(2::real) powr of_int j \<le> 2 powr of_int \<lfloor>log 2 x\<rfloor>"
  using assms by (intro powr_mono) simp_all

lemma pow2_int_above:
  fixes j :: int
  assumes "\<lfloor>log 2 x\<rfloor> < j"
  shows "(2::real) powr of_int \<lceil>log 2 x\<rceil> \<le> 2 powr of_int j"
proof -
  have "\<lceil>log 2 x\<rceil> \<le> \<lfloor>log 2 x\<rfloor> + 1"
    by linarith
  with assms have "\<lceil>log 2 x\<rceil> \<le> j" by linarith
  then show ?thesis by (intro powr_mono) simp_all
qed

lemma floor_log2_between:
  fixes x :: real
  assumes "2 ^ k \<le> x" "x < 2 ^ Suc k"
  shows "\<lfloor>log 2 x\<rfloor> = int k"
proof -
  have pos: "0 < x" using assms(1) by (smt (verit) zero_less_power)
  have "2 powr real_of_int (int k) \<le> x \<and> x < 2 powr real_of_int (int k + 1)"
    using assms by (simp add: powr_realpow powr_add)
  then show ?thesis using floor_log_eq_powr_iff [of x 2 "int k"] pos by simp
qed

lemma ceiling_log2_between:
  fixes x :: real
  assumes "2 ^ k < x" "x \<le> 2 ^ Suc k"
  shows "\<lceil>log 2 x\<rceil> = int k + 1"
proof -
  have pos: "0 < x" using assms(1) by (smt (verit) zero_less_power)
  have "2 powr real k < x \<and> x \<le> 2 powr real (k + 1)"
    using assms by (simp add: powr_realpow powr_add)
  then show ?thesis using ceiling_log_eq_powr_iff [of x 2 k] pos by simp
qed

lemma nearestPow2_between:
  assumes "2 ^ k < x" "x < 2 ^ Suc k" "k < 1023"
  shows "nearestPow2 (PyFloat x)
           = Inr (Fin (if 2 ^ Suc k - x < x - 2 ^ k then 2 ^ Suc k else 2 ^ k))"
proof -
  have pos: "0 < x" using assms(1) by (smt (verit) zero_less_power)
  have "(2::real) powr (- 1074) \<le> 2 powr 0" by (intro powr_mono) simp_all
  also have "\<dots> \<le> 2 ^ k" by simp
  finally have lo: "2 powr (- 1074) \<le> x" using assms(1) by linarith
  have "(2::real) ^ Suc k \<le> 2 ^ 1023"
    using assms(3) by (intro power_increasing) simp_all
  then have hi: "x \<le> 2 ^ 1023" using assms(2) by linarith
  have f: "\<lfloor>log 2 x\<rfloor> = int k" using assms by (intro floor_log2_between) simp_all
  have c: "\<lceil>log 2 x\<rceil> = int k + 1" using assms by (intro ceiling_log2_between) simp_all
  have pf: "2 powr real_of_int (int k) = (2::real) ^ k" by (simp add: powr_realpow)
  have pc: "2 powr real_of_int (int k + 1) = (2::real) ^ Suc k"
    by (simp add: powr_realpow powr_add)
  show ?thesis
    unfolding nearestPow2_pos [OF lo hi] f c pf pc using assms(1,2) by simp
qed

lemma nearestPow2_exact:
  fixes m :: int
  assumes "- 1074 \<le> m" "m \<le> 1023"
  shows "nearestPow2 (PyFloat (2 powr of_int m)) = Inr (Fin (2 powr of_int m))"
proof -
  have l: "log 2 (2 powr real_of_int m) = real_of_int m" by simp
  have np: "np_log2_arg (PyFloat (2 powr of_int m)) = Inr (Fin (of_int m))"
    by (simp add: np_log2_arg_def)
  show ?thesis
    unfolding nearestPow2_def np bind.simps math_ceil.simps math_floor.simps
      ceiling_of_int floor_of_int math_pow2_in_range [OF assms]
    by (simp add: as_float_def)
qed

lemma nearestPow2_exact_nat:
  assumes "k \<le> 1023"
  shows "nearestPow2 (PyFloat (2 ^ k)) = Inr (Fin (2 ^ k))"
proof -
  have "- 1074 \<le> int k" "int k \<le> 1023" using assms by simp_all
  from nearestPow2_exact [OF this] show ?thesis by (simp add: powr_realpow)
qed

lemma nearestPow2_closest:
  assumes "2 powr (- 1074) \<le> x" "x \<le> 2 ^ 1023"
  shows "\<exists>k::int. nearestPow2 (PyFloat x) = Inr (Fin (2 powr of_int k))
           \<and> (\<forall>j::int. \<bar>2 powr of_int k - x\<bar> \<le> \<bar>2 powr of_int j - x\<bar>)
           \<and> (\<forall>j::int. \<bar>2 powr of_int j - x\<bar> = \<bar>2 powr of_int k - x\<bar>
                  \<longrightarrow> (2::real) powr of_int k \<le> 2 powr of_int j)"
proof -
  have pos: "0 < x" by (rule in_range_pos [OF assms(1)])
  define f where "f = \<lfloor>log 2 x\<rfloor>"
  define c where "c = \<lceil>log 2 x\<rceil>"
  define a where "a = (2::real) powr of_int c"
  define b where "b = (2::real) powr of_int f"
  have bx: "b \<le> x" unfolding b_def f_def by (rule pow2_floor_le [OF pos])
  have xa: "x \<le> a" unfolding a_def c_def by (rule pow2_ceiling_ge [OF pos])
  have lo: "2 powr of_int j \<le> b" if "j \<le> f" for j :: int
    using that unfolding b_def f_def by (rule pow2_int_below)
  have hi: "a \<le> 2 powr of_int j" if "f < j" for j :: int
    using that unfolding a_def c_def f_def by (rule pow2_int_above)
  have lo_strict: "2 powr of_int j < b" if "j < f" for j :: int
    using that unfolding b_def by simp
  have hi_strict: "a < 2 powr of_int j" if "c < j" for j :: int
    using that unfolding a_def by simp
  have np: "nearestPow2 (PyFloat x) = Inr (Fin (if \<bar>a - x\<bar> < \<bar>b - x\<bar> then a else b))"
    unfolding a_def b_def c_def f_def by (rule nearestPow2_pos [OF assms])
  show ?thesis
  proof (cases "\<bar>a - x\<bar> < \<bar>b - x\<bar>")
    case True
    have "nearestPow2 (PyFloat x) = Inr (Fin (2 powr of_int c))"
      using np True by (simp add: a_def)
    moreover have "\<bar>2 powr of_int c - x\<bar> \<le> \<bar>2 powr of_int j - x\<bar>" for j :: int
    proof (cases "j \<le> f")
      case True
      with lo [of j] bx \<open>\<bar>a - x\<bar> < \<bar>b - x\<bar>\<close> show ?thesis unfolding a_def by linarith
    next
      case False
      with hi [of j] xa show ?thesis unfolding a_def by linarith
    qed
    moreover have "(2::real) powr of_int c \<le> 2 powr of_int j"
      if "\<bar>2 powr of_int j - x\<bar> = \<bar>2 powr of_int c - x\<bar>" for j :: int
    proof (cases "j \<le> f")
      case True
      with lo [of j] bx \<open>\<bar>a - x\<bar> < \<bar>b - x\<bar>\<close> that show ?thesis unfolding a_def by linarith
    next
      case False
      with hi [of j] show ?thesis unfolding a_def by linarith
    qed
    ultimately show ?thesis by blast
  next
    case False
    have "nearestPow2 (PyFloat x) = Inr (Fin (2 powr of_int f))"
      using np False by (simp add: b_def)
    moreover have "\<bar>2 powr of_int f - x\<bar> \<le> \<bar>2 powr of_int j - x\<bar>" for j :: int
    proof (cases "j \<le> f")
      case True
      with lo [of j] bx show ?thesis unfolding b_def by linarith
    next
      case F: False
      with hi [of j] xa bx False show ?thesis unfolding b_def by linarith
    qed
    moreover have "(2::real) powr of_int f \<le> 2 powr of_int j"
      if "\<bar>2 powr of_int j - x\<bar> = \<bar>2 powr of_int f - x\<bar>" for j :: int
    proof (cases "j < f")
      case True
      with lo_strict [of j] bx that show ?thesis unfolding b_def by linarith
    next
      case False
      then have "f \<le> j" by simp
      then show ?thesis by (intro powr_mono) simp_all
    qed
    ultimately show ?thesis by blast
  qed
qed

lemma nearestPow2_overflow:
  assumes "2 ^ 1023 < x"
  shows "nearestPow2 (PyFloat x) = Inl OverflowError"
proof -
  have pos: "0 < x" using assms by (smt (verit) zero_less_power)
  have "(2::real) powr 1023 < x" using assms by simp
  then have "1023 < log 2 x"
    using pos by (simp only: less_log_iff [of 2 x 1023, OF _ pos] one_less_numeral_iff semiring_norm)
  then have c: "1024 \<le> \<lceil>log 2 x\<rceil>" by linarith
  have l: "np_log2_arg (PyFloat x) = Inr (Fin (log 2 x))"
    using pos by (simp add: np_log2_arg_def)
  have a: "math_pow2 (math_ceil (Fin (log 2 x))) = Inl OverflowError"
    using c by simp
  show ?thesis unfolding nearestPow2_def l bind.simps a by simp
qed

text \<open>Whatever the float argument above zero: a returned value lies below twice the
  argument.\<close>

lemma math_pow2_Fin_cases:
  assumes "math_pow2 (Fin y) = Inr v"
  shows "v = Fin 0 \<or> v = Fin (2 powr y)"
  using assms by (auto split: if_splits)

lemma nearestPow2_lt_twice:
  assumes "0 < x" "nearestPow2 (PyFloat x) = Inr v"
  shows "\<exists>r. v = Fin r \<and> 0 \<le> r \<and> r < 2 * x"
proof -
  have l: "np_log2_arg (PyFloat x) = Inr (Fin (log 2 x))"
    using assms(1) by (simp add: np_log2_arg_def)
  from assms(2) obtain a b where
      a: "math_pow2 (Fin (of_int \<lceil>log 2 x\<rceil>)) = Inr a"
    and b: "math_pow2 (Fin (of_int \<lfloor>log 2 x\<rfloor>)) = Inr b"
    and v: "v = a \<or> v = b"
    unfolding nearestPow2_def l bind.simps math_ceil.simps math_floor.simps bind_eq_Inr
    by (auto split: if_splits)
  have c: "2 powr of_int \<lceil>log 2 x\<rceil> < 2 * x" by (rule pow2_ceiling_lt_twice [OF assms(1)])
  have f: "2 powr of_int \<lfloor>log 2 x\<rfloor> \<le> x" by (rule pow2_floor_le [OF assms(1)])
  from math_pow2_Fin_cases [OF a] math_pow2_Fin_cases [OF b] v
  have "v = Fin 0 \<or> v = Fin (2 powr of_int \<lceil>log 2 x\<rceil>) \<or> v = Fin (2 powr of_int \<lfloor>log 2 x\<rfloor>)"
    by blast
  then show ?thesis using c f assms(1) by auto
qed

lemma recomputed_nfft_le:
  assumes "1 \<le> npts" "bind (nearestPow2 (PyFloat (of_int npts / 8))) py_int = Inr m"
  shows "0 \<le> m \<and> m \<le> npts"
proof -
  have pos: "(0::real) < of_int npts / 8" using assms(1) by simp
  from assms(2) obtain v where v: "nearestPow2 (PyFloat (of_int npts / 8)) = Inr v"
      and m: "py_int v = Inr m"
    unfolding bind_eq_Inr by blast
  from nearestPow2_lt_twice [OF pos v] obtain r where
    r: "v = Fin r" "0 \<le> r" "r < 2 * (of_int npts / 8)" by blast
  have "real_of_int \<lfloor>r\<rfloor> \<le> r" by simp
  also have "r < of_int npts" using r(3) assms(1) by simp
  finally have "\<lfloor>r\<rfloor> < npts" by simp
  moreover have "0 \<le> \<lfloor>r\<rfloor>" using r(2) by simp
  ultimately show ?thesis using r m by auto
qed

lemma recomputed_nfft:
  assumes "1 \<le> npts" "npts \<le> 2 ^ 1026"
  shows "\<exists>m. bind (nearestPow2 (PyFloat (of_int npts / 8))) py_int = Inr m \<and> 0 \<le> m \<and> m \<le> npts"
proof -
  have "(2::real) powr (- 1074) \<le> 2 powr (- 3)" by (intro powr_mono) simp_all
  also have "\<dots> = 1 / 8" by (simp add: powr_minus_divide)
  also have "\<dots> \<le> of_int npts / 8" using assms(1) by simp
  finally have lo: "2 powr (- 1074) \<le> real_of_int npts / 8" .
  have "real_of_int npts \<le> 2 ^ 1026" using assms(2) by (metis of_int_le_iff of_int_numeral of_int_power)
  also have "\<dots> = 8 * 2 ^ 1023" by simp
  finally have hi: "real_of_int npts / 8 \<le> 2 ^ 1023" by simp
  obtain k :: int where "nearestPow2 (PyFloat (of_int npts / 8)) = Inr (Fin (2 powr of_int k))"
    using nearestPow2_closest [OF lo hi] by blast
  then have "\<exists>m. bind (nearestPow2 (PyFloat (of_int npts / 8))) py_int = Inr m" by simp
  then show ?thesis using recomputed_nfft_le [OF assms(1)] by blast
qed

lemma segmentation_nfft:
  assumes "segmentation fs lap wl ml npts = Inr p"
  shows "\<exists>n0. bind (nearestPow2 (PyFloat (default_wlen fs wl * fs))) py_int = Inr n0
           \<and> (if npts < n0 then bind (nearestPow2 (PyFloat (of_int npts / 8))) py_int = Inr (nfft p)
               else nfft p = n0)"
proof -
  from assms obtain n0 where
      n0: "bind (nearestPow2 (PyFloat (default_wlen fs wl * fs))) py_int = Inr n0"
    and r1: "bind (if npts < n0 then bind (nearestPow2 (PyFloat (of_int npts / 8))) py_int
                   else Inr n0)
               (\<lambda>nfft1.
                 bind (case ml of
                         None \<Rightarrow> Inr None
                       | Some m \<Rightarrow> bind (bind (nearestPow2 (PyFloat m)) py_int)
                                    (\<lambda>k. Inr (Some (k * nfft1))))
                   (\<lambda>pad.
                     bind (py_int (Fin (of_int nfft1 * lap)))
                       (\<lambda>nlap1. Inr \<lparr>nfft = nfft1, pad_to = pad, nlap = nlap1\<rparr>))) = Inr p"
    unfolding segmentation_def bind_eq_Inr [where m = "bind (nearestPow2 (PyFloat (default_wlen fs wl * fs))) py_int"]
    by blast
  from r1 obtain n1 where
      n1: "(if npts < n0 then bind (nearestPow2 (PyFloat (of_int npts / 8))) py_int
            else Inr n0) = Inr n1"
    and r2: "bind (case ml of
                     None \<Rightarrow> Inr None
                   | Some m \<Rightarrow> bind (bind (nearestPow2 (PyFloat m)) py_int)
                                (\<lambda>k. Inr (Some (k * n1))))
               (\<lambda>pad.
                 bind (py_int (Fin (of_int n1 * lap)))
                   (\<lambda>nlap1. Inr \<lparr>nfft = n1, pad_to = pad, nlap = nlap1\<rparr>)) = Inr p"
    unfolding bind_eq_Inr [where m = "if npts < n0 then bind (nearestPow2 (PyFloat (of_int npts / 8))) py_int else Inr n0"]
    by blast
  from r2 obtain pad nl where "p = \<lparr>nfft = n1, pad_to = pad, nlap = nl\<rparr>"
    unfolding bind_eq_Inr by blast
  then have "nfft p = n1" by simp
  with n0 n1 show ?thesis by (cases "npts < n0") simp_all
qed

lemma nearestPow2_200: "nearestPow2 (PyFloat 200) = Inr (Fin 256)"
  using nearestPow2_between [of 7 200] by simp

lemma nearestPow2_8: "nearestPow2 (PyFloat 8) = Inr (Fin 8)"
  using nearestPow2_exact_nat [of 3] by simp

lemma nearestPow2_12_5: "nearestPow2 (PyFloat (25 / 2)) = Inr (Fin 16)"
  using nearestPow2_between [of 3 "25 / 2"] by simp

lemma segmentation_recapped_100:
  "segmentation 100 (9 / 10) (Some 2) (Some 8) 100
     = Inr \<lparr>nfft = 16, pad_to = Some 128, nlap = 14\<rparr>"
proof -
  have d: "default_wlen 100 (Some 2) * 100 = 200" by (simp add: default_wlen_def)
  show ?thesis unfolding segmentation_def d nearestPow2_200
    by (simp add: nearestPow2_12_5 nearestPow2_8)
qed

text \<open>Integer arguments.\<close>

lemma int_to_double_exact:
  assumes "0 \<le> n" "n \<le> 2 ^ 53"
  shows "int_to_double n = of_int n"
proof (cases "n = 2 ^ 53")
  case True
  have "bitlen (1 * 2 ^ 53) = bitlen 1 + int 53" by (rule bitlen_pow2) simp
  moreover have "bitlen 1 = 1" by (simp add: bitlen_alt_def)
  ultimately have "bitlen (2 ^ 53) = 54" by simp
  then show ?thesis unfolding True int_to_double_def by (simp add: Let_def)
next
  case False
  with assms have "n < 2 ^ nat 53" by simp
  then have "bitlen n \<le> 53" using bitlen_le_iff_power [of n 53] by simp
  then have s: "nat (bitlen \<bar>n\<bar> - 53) = 0" using assms(1) by simp
  show ?thesis unfolding int_to_double_def Let_def s using assms(1) by (simp add: sgn_if)
qed

lemma nearestPow2_PyInt:
  assumes "0 \<le> n" "n \<le> 2 ^ 53"
  shows "nearestPow2 (PyInt n) = nearestPow2 (PyFloat (of_int n))"
proof -
  have "- (2 ^ 63) \<le> n" using assms(1) by simp
  moreover have "n < 2 ^ 64" using assms(2) by simp
  ultimately show ?thesis
    unfolding nearestPow2_def
    by (simp add: np_log2_arg_def as_float_def int_to_double_exact [OF assms])
qed

lemma nearestPow2_PyInt_range:
  assumes "- (2 ^ 63) \<le> n" "n < 2 ^ 64"
  shows "nearestPow2 (PyInt n) = nearestPow2 (PyFloat (int_to_double n))"
  using assms unfolding nearestPow2_def by (simp add: np_log2_arg_def as_float_def)

lemma bitlen_rounded: "bitlen (3 * 2 ^ 60 + 1) = 62"
proof -
  have "bitlen (3 * 2 ^ 60 + 1) \<le> 62"
    using bitlen_le_iff_power [of "3 * 2 ^ 60 + 1" 62] by simp
  moreover have "62 \<le> bitlen (3 * 2 ^ 60 + 1)"
    using bitlen_ge_iff_power [of 62 "3 * 2 ^ 60 + 1"] by simp
  ultimately show ?thesis by simp
qed

lemma int_to_double_rounded: "int_to_double (3 * 2 ^ 60 + 1) = 3 * 2 ^ 60"
proof -
  have b: "bitlen 3458764513820540929 = 62" using bitlen_rounded by simp
  show ?thesis unfolding int_to_double_def Let_def by (simp add: b)
qed

lemma nearestPow2_rounded: "nearestPow2 (PyInt (3 * 2 ^ 60 + 1)) = Inr (Fin (2 ^ 61))"
proof -
  have r: "nearestPow2 (PyInt (3 * 2 ^ 60 + 1)) = nearestPow2 (PyFloat (int_to_double (3 * 2 ^ 60 + 1)))"
    by (rule nearestPow2_PyInt_range) simp_all
  show ?thesis
    unfolding r int_to_double_rounded using nearestPow2_between [of 61 "3 * 2 ^ 60"] by simp
qed

lemma nearestPow2_3: "nearestPow2 (PyFloat 3) = Inr (Fin 2)"
  using nearestPow2_between [of 1 3] by simp

lemma nearestPow2_15: "nearestPow2 (PyFloat 15) = Inr (Fin 16)"
  using nearestPow2_between [of 3 15] by simp

section \<open>Facts about the run\<close>

lemma nearestPow2_100: "nearestPow2 (PyFloat 100) = Inr (Fin 128)"
  using nearestPow2_between [of 6 100] by simp

lemma segmentation_default_1000:
  "segmentation 100 (9 / 10) None (Some 8) 1000
     = Inr \<lparr>nfft = 128, pad_to = Some 1024, nlap = 115\<rparr>"
proof -
  have d: "default_wlen 100 None * 100 = 100" by (simp add: default_wlen_def)
  show ?thesis unfolding segmentation_def d nearestPow2_100 by (simp add: nearestPow2_8)
qed

lemma spectrogram_trace:
  assumes "segmentation fs (per_lap opts) (wlen opts) (mult opts) (int (length data)) = Inr p"
    and "fs \<noteq> 0"
  shows "fst (spectrogram e data fs opts)
           = [Specgram fs (nfft p)
                (if list_ge (MATPLOTLIB_VERSION e) [0, 99, 0] then pad_to p else None) (nlap p)]"
  using assms by (simp add: spectrogram_def Let_def)

lemma length_np_arange:
  assumes "0 < step" "0 < stop"
  shows "length (np_arange stop step) = nat ((stop + step - 1) div step)"
  using assms by (simp add: np_arange_def)

lemma raw_shape_mlab_specgram:
  assumes "noverlap < NFFT" "0 < padded" "padded = (case pad of None \<Rightarrow> NFFT | Some q \<Rightarrow> q)"
  shows "raw_shape (mlab_specgram psd x Fs NFFT pad noverlap)
           = Inr (nat (padded div 2 + 1), nat (padded div 2 + 1),
                  length (np_arange (max (int (length x)) NFFT - NFFT + 1) (NFFT - noverlap)))"
  using assms by (simp add: raw_shape_def mlab_specgram_def Let_def)

lemma mlab_specgram_returns:
  assumes "noverlap < NFFT" "0 < (case pad of None \<Rightarrow> NFFT | Some q \<Rightarrow> q)"
  shows "\<exists>S freq time. mlab_specgram psd x Fs NFFT pad noverlap = Inr (S, freq, time)"
  using assms by (simp add: mlab_specgram_def Let_def)

lemma length_amplitude_transform:
  "length (fst (amplitude_transform db S freq)) = length S - 1"
  "length (snd (amplitude_transform db S freq)) = length freq - 1"
  by (simp_all add: amplitude_transform_def)

lemma length_detrend: "length (detrend data) = length data"
  by (simp add: detrend_def)

lemma shape_1000_padded:
  assumes "length x = 1000"
  shows "raw_shape (mlab_specgram psd x 100 128 (Some 1024) 115) = Inr (513, 513, 68)"
proof -
  have "length (np_arange (max (int (length x)) 128 - 128 + 1) (128 - 115)) = 68"
    using assms by (simp add: length_np_arange)
  then show ?thesis
    using raw_shape_mlab_specgram [of 115 128 1024 "Some 1024" psd x 100] by simp
qed

lemma shape_1000_unpadded:
  assumes "length x = 1000"
  shows "raw_shape (mlab_specgram psd x 100 128 None 115) = Inr (65, 65, 68)"
proof -
  have "length (np_arange (max (int (length x)) 128 - 128 + 1) (128 - 115)) = 68"
    using assms by (simp add: length_np_arange)
  then show ?thesis
    using raw_shape_mlab_specgram [of 115 128 128 None psd x 100] by simp
qed

lemma raw_shape_Inr:
  "r = Inr (S, f, t) \<Longrightarrow> raw_shape r = Inr (length S, length f, length t)"
  by (simp add: raw_shape_def)

lemma math_pow2_no_overflow:
  assumes "k \<le> 1023"
  shows "\<exists>r. math_pow2 (Fin (of_int k)) = Inr (Fin r) \<and> 0 \<le> r"
  using assms by simp

lemma nearestPow2_returns:
  assumes "0 < x" "x \<le> 2 ^ 1023"
  shows "\<exists>r. nearestPow2 (PyFloat x) = Inr (Fin r) \<and> 0 \<le> r"
proof -
  have hi: "log 2 x \<le> 1023" by (rule log2_le_1023 [OF assms])
  have c: "\<lceil>log 2 x\<rceil> \<le> 1023" using hi by linarith
  have f: "\<lfloor>log 2 x\<rfloor> \<le> 1023" using hi by linarith
  have l: "np_log2_arg (PyFloat x) = Inr (Fin (log 2 x))"
    using assms(1) by (simp add: np_log2_arg_def)
  obtain a where a: "math_pow2 (Fin (of_int \<lceil>log 2 x\<rceil>)) = Inr (Fin a)" "0 \<le> a"
    using math_pow2_no_overflow [OF c] by blast
  obtain b where b: "math_pow2 (Fin (of_int \<lfloor>log 2 x\<rfloor>)) = Inr (Fin b)" "0 \<le> b"
    using math_pow2_no_overflow [OF f] by blast
  show ?thesis
    unfolding nearestPow2_def l bind.simps math_ceil.simps math_floor.simps a(1) b(1)
    using a(2) b(2) by simp
qed

lemma np_max_returns:
  assumes "concat S \<noteq> []"
  shows "\<exists>v. np_max S = Inr v"
  using assms by (cases "concat S") (simp_all add: np_max_def)

lemma np_min_returns:
  assumes "concat S \<noteq> []"
  shows "\<exists>v. np_min S = Inr v"
  using assms by (cases "concat S") (simp_all add: np_min_def)

lemma np_max_not_clip_msg: "np_max S \<noteq> Inl (ValueError clip_msg)"
  by (simp add: np_max_def clip_msg_def split: list.split)

lemma np_min_not_clip_msg: "np_min S \<noteq> Inl (ValueError clip_msg)"
  by (simp add: np_min_def clip_msg_def split: list.split)

lemma color_normalizer_invalid:
  assumes "fless lo (Fin 0) \<or> fless (Fin 1) hi \<or> fge lo hi"
  shows "color_normalizer S (lo, hi) = Inl (ValueError clip_msg)"
  using assms by (simp add: color_normalizer_def)

lemma color_normalizer_valid:
  assumes "\<not> (fless lo (Fin 0) \<or> fless (Fin 1) hi \<or> fge lo hi)"
  shows "color_normalizer S (lo, hi) =
           bind (np_max S) (\<lambda>mx. bind (np_min S) (\<lambda>mn.
             Inr (fadd mn (fmul lo (fsub mx mn)), fadd mn (fmul hi (fsub mx mn)))))"
  using assms by (simp add: color_normalizer_def Let_def)

lemma color_normalizer_valid_not_clip_msg:
  assumes "\<not> (fless lo (Fin 0) \<or> fless (Fin 1) hi \<or> fge lo hi)"
  shows "color_normalizer S (lo, hi) \<noteq> Inl (ValueError clip_msg)"
proof (cases "np_max S")
  case (Inl err)
  then have "err \<noteq> ValueError clip_msg" using np_max_not_clip_msg [of S] by simp
  then show ?thesis unfolding color_normalizer_valid [OF assms] Inl by simp
next
  case mx: (Inr mx)
  show ?thesis
  proof (cases "np_min S")
    case (Inl err)
    then have "err \<noteq> ValueError clip_msg" using np_min_not_clip_msg [of S] by simp
    then show ?thesis unfolding color_normalizer_valid [OF assms] mx Inl by simp
  next
    case (Inr mn)
    show ?thesis unfolding color_normalizer_valid [OF assms] mx Inr by simp
  qed
qed

lemma color_normalizer_valid_returns:
  assumes "\<not> (fless lo (Fin 0) \<or> fless (Fin 1) hi \<or> fge lo hi)" "concat S \<noteq> []"
  shows "\<exists>b. color_normalizer S (lo, hi) = Inr b"
proof -
  obtain mx where mx: "np_max S = Inr mx" using np_max_returns [OF assms(2)] by blast
  obtain mn where mn: "np_min S = Inr mn" using np_min_returns [OF assms(2)] by blast
  show ?thesis unfolding color_normalizer_valid [OF assms(1)] mx mn by simp
qed

lemma color_normalizer_iff:
  "color_normalizer S (lo, hi) = Inl (ValueError clip_msg)
     \<longleftrightarrow> fless lo (Fin 0) \<or> fless (Fin 1) hi \<or> fge lo hi"
  using color_normalizer_invalid [of lo hi S] color_normalizer_valid_not_clip_msg [of lo hi S]
  by blast

lemma sorted_wrt_less_le_last:
  fixes xs :: "real list"
  assumes "sorted_wrt (<) xs" "x \<in> set xs"
  shows "x \<le> last xs"
proof -
  from assms(2) obtain i where i: "i < length xs" "xs ! i = x" by (auto simp: in_set_conv_nth)
  then have ne: "xs \<noteq> []" by auto
  have "sorted xs" by (rule strict_sorted_imp_sorted [OF assms(1)])
  then have "xs ! i \<le> xs ! (length xs - 1)"
    using i(1) by (intro sorted_nth_mono) simp_all
  then show ?thesis using i(2) by (simp add: last_conv_nth [OF ne])
qed

lemma edges_sorted:
  fixes xs :: "real list"
  assumes "sorted_wrt (<) xs" "0 < h"
  shows "sorted_wrt (<) (map (\<lambda>v. v - h) (xs @ [last xs + 2 * h]))"
proof -
  have "\<forall>x\<in>set xs. x < last xs + 2 * h"
    using sorted_wrt_less_le_last [OF assms(1)] assms(2) by fastforce
  then have "sorted_wrt (<) (xs @ [last xs + 2 * h])"
    using assms(1) by (simp add: sorted_wrt_append)
  then show ?thesis unfolding sorted_wrt_map by simp
qed

lemma half_bin_pos:
  fixes xs :: "real list"
  assumes "sorted_wrt (<) xs" "2 \<le> length xs"
  shows "0 < (xs ! 1 - xs ! 0) / 2"
proof -
  have "xs ! 0 < xs ! 1"
    using assms by (intro sorted_wrt_nth_less [OF assms(1)]) simp_all
  then show ?thesis by simp
qed

lemma amplitude_transform_Cons:
  "amplitude_transform db (r # rest) (f # fs)
     = (map (map (\<lambda>v. if db then fmul (Fin 10) (np_log10 (Fin v)) else np_sqrt (Fin v))) rest, fs)"
  by (simp add: amplitude_transform_def)

lemma axis_binner_log:
  assumes "2 \<le> length time" "2 \<le> length freq"
  shows "axis_binner True time freq
           = Inr (Edges (map (\<lambda>t. t - (time ! 1 - time ! 0) / 2)
                          (time @ [last time + 2 * ((time ! 1 - time ! 0) / 2)]))
                        (map (\<lambda>f. f - (freq ! 1 - freq ! 0) / 2)
                          (freq @ [last freq + 2 * ((freq ! 1 - freq ! 0) / 2)])))"
  using assms by (simp add: axis_binner_def half_bins_def Let_def)

lemma segmentation_default_128:
  "segmentation 100 (9 / 10) None (Some 8) 128
     = Inr \<lparr>nfft = 128, pad_to = Some 1024, nlap = 115\<rparr>"
proof -
  have d: "default_wlen 100 None * 100 = 100" by (simp add: default_wlen_def)
  show ?thesis unfolding segmentation_def d nearestPow2_100 by (simp add: nearestPow2_8)
qed

lemma segmentation_negative_wlen:
  "segmentation 100 (9 / 10) (Some (- 1)) (Some 8) 1000
     = Inl (ValueError ''cannot convert float NaN to integer'')"
proof -
  have n: "nearestPow2 (PyFloat (- 100)) = Inr NaN"
    by (simp add: nearestPow2_def np_log2_arg_def as_float_def)
  have d: "default_wlen 100 (Some (- 1)) * 100 = - 100" by (simp add: default_wlen_def)
  show ?thesis unfolding segmentation_def d n by simp
qed

lemma spectrogram_plan_error:
  assumes "segmentation fs (per_lap opts) (wlen opts) (mult opts) (int (length data)) = Inl err"
  shows "spectrogram e data fs opts = ([], Inl err)"
  using assms by (simp add: spectrogram_def)

lemma spectrogram_zero_rate:
  assumes "segmentation fs (per_lap opts) (wlen opts) (mult opts) (int (length data)) = Inr p"
    and "fs = 0"
  shows "spectrogram e data fs opts = ([], Inl ZeroDivisionError)"
  using assms by (simp add: spectrogram_def)

lemma spectrogram_estimator_error:
  assumes "segmentation fs (per_lap opts) (wlen opts) (mult opts) (int (length data)) = Inr p"
    and "fs \<noteq> 0"
    and "specgram e (detrend data) fs (nfft p)
           (if list_ge (MATPLOTLIB_VERSION e) [0, 99, 0] then pad_to p else None) (nlap p)
         = Inl err"
  shows "snd (spectrogram e data fs opts) = Inl err"
  using assms by (simp add: spectrogram_def Let_def)

lemma spectrogram_after_estimator:
  assumes "segmentation fs (per_lap opts) (wlen opts) (mult opts) (int (length data)) = Inr p"
    and "fs \<noteq> 0"
    and "specgram e (detrend data) fs (nfft p)
           (if list_ge (MATPLOTLIB_VERSION e) [0, 99, 0] then pad_to p else None) (nlap p)
         = Inr (S, freq, time)"
  shows "snd (spectrogram e data fs opts)
         = bind (color_normalizer (fst (amplitude_transform (dbscale opts) S freq)) (clip opts))
             (\<lambda>bounds.
           bind (axis_binner (log_flag opts) time (snd (amplitude_transform (dbscale opts) S freq)))
             (\<lambda>ax.
           Inr \<lparr>grid = (if log_flag opts then fst (amplitude_transform (dbscale opts) S freq)
                        else rev (fst (amplitude_transform (dbscale opts) S freq))),
                axes = ax, norm = bounds\<rparr>))"
  using assms by (simp add: spectrogram_def Let_def split: prod.split)

lemma spectrogram_invalid_clip:
  assumes "segmentation fs (per_lap opts) (wlen opts) (mult opts) (int (length data)) = Inr p"
    and "fs \<noteq> 0"
    and "specgram e (detrend data) fs (nfft p)
           (if list_ge (MATPLOTLIB_VERSION e) [0, 99, 0] then pad_to p else None) (nlap p)
         = Inr (S, freq, time)"
    and "clip opts = (lo, hi)"
    and "fless lo (Fin 0) \<or> fless (Fin 1) hi \<or> fge lo hi"
  shows "snd (spectrogram e data fs opts) = Inl (ValueError clip_msg)"
  unfolding spectrogram_after_estimator [OF assms(1,2,3)] assms(4)
    color_normalizer_invalid [OF assms(5)]
  by simp

lemma axis_binner_single:
  assumes "length time = 1 \<or> length freq = 1"
  shows "axis_binner lg time freq = Inl IndexError"
  using assms by (auto simp: axis_binner_def half_bins_def)

lemma spectrogram_single_bin:
  assumes "segmentation fs (per_lap opts) (wlen opts) (mult opts) (int (length data)) = Inr p"
    and "fs \<noteq> 0"
    and "specgram e (detrend data) fs (nfft p)
           (if list_ge (MATPLOTLIB_VERSION e) [0, 99, 0] then pad_to p else None) (nlap p)
         = Inr (S, freq, time)"
    and "length time = 1 \<or> length (snd (amplitude_transform (dbscale opts) S freq)) = 1"
    and "clip opts = (lo, hi)"
    and "\<not> (fless lo (Fin 0) \<or> fless (Fin 1) hi \<or> fge lo hi)"
    and "concat (fst (amplitude_transform (dbscale opts) S freq)) \<noteq> []"
  shows "snd (spectrogram e data fs opts) = Inl IndexError"
proof -
  obtain b where b: "color_normalizer (fst (amplitude_transform (dbscale opts) S freq)) (lo, hi) = Inr b"
    using color_normalizer_valid_returns [OF assms(6,7)] by blast
  show ?thesis
    unfolding spectrogram_after_estimator [OF assms(1,2,3)] assms(5) b bind.simps
      axis_binner_single [OF assms(4)]
    by simp
qed

lemma mlab_specgram_Inr:
  assumes "noverlap < NFFT" "0 < padded" "padded = (case pad of None \<Rightarrow> NFFT | Some q \<Rightarrow> q)"
    and "ind = np_arange (max (int (length x)) NFFT - NFFT + 1) (NFFT - noverlap)"
  shows "mlab_specgram psd x Fs NFFT pad noverlap
           = Inr (map (\<lambda>i. map (\<lambda>j. psd i j) [0..<length ind]) [0..<nat (padded div 2 + 1)],
                  map (\<lambda>i. Fs / of_int padded * real i) [0..<nat (padded div 2 + 1)],
                  map (\<lambda>k. 1 / Fs * (of_int k + of_int NFFT / 2)) ind)"
  using assms by (simp add: mlab_specgram_def Let_def)

lemma np_arange_single: "np_arange 1 13 = [0]"
  by (simp add: np_arange_def)

lemma specgram_128:
  assumes "length x = 128"
  shows "mlab_specgram psd x 100 128 (Some 1024) 115
           = Inr (map (\<lambda>i. [psd i 0]) [0..<513],
                  map (\<lambda>i. 100 / 1024 * real i) [0..<513],
                  [1 / 100 * (0 + 128 / 2)])"
proof -
  have ind: "[0] = np_arange (max (int (length x)) 128 - 128 + 1) (128 - 115)"
    using assms np_arange_single by simp
  show ?thesis
    using mlab_specgram_Inr [of 115 128 1024 "Some 1024" "[0]" x psd 100, OF _ _ _ ind]
    by simp
qed

lemma scaled_128_nonempty:
  "concat (fst (amplitude_transform db (map (\<lambda>i. [psd i 0]) [0..<513]) freq)) \<noteq> []"
proof -
  have "[0..<513] = 0 # [Suc 0..<513]" by (rule upt_conv_Cons) simp
  moreover have "[Suc 0..<513] = Suc 0 # [Suc (Suc 0)..<513]" by (rule upt_conv_Cons) simp
  ultimately have u: "[0..<513] = 0 # Suc 0 # [Suc (Suc 0)..<513]" by simp
  show ?thesis unfolding u by (simp add: amplitude_transform_def)
qed

section \<open>The claims\<close>

text \<open>
  C1 (amended). For every float \<open>x\<close> from the smallest positive binary64
  \<open>2 ^ -1074\<close> up to \<open>2 ^ 1023\<close>, \<open>nearestPow2 x\<close> returns a power of two \<open>2 ^ k\<close>
  (\<open>k\<close> an integer) such that no power of two is strictly closer to \<open>x\<close>; among the
  powers of two that are as close as the result, the result is the smallest (a tie goes
  to the lower power); a power of two is returned unchanged; an integer argument up to
  \<open>2 ^ 53\<close> gives what the float of the same value gives; and \<open>nearestPow2 3 = 2\<close>,
  \<open>nearestPow2 15 = 16\<close>, \<open>nearestPow2 8 = 8\<close>.
\<close>

theorem nearestPow2_nearest:
  assumes "2 powr (- 1074) \<le> x" and "x \<le> 2 ^ 1023"
  shows "(\<exists>k::int. nearestPow2 (PyFloat x) = Inr (Fin (2 powr of_int k))
           \<and> (\<forall>j::int. \<bar>2 powr of_int k - x\<bar> \<le> \<bar>2 powr of_int j - x\<bar>)
           \<and> (\<forall>j::int. \<bar>2 powr of_int j - x\<bar> = \<bar>2 powr of_int k - x\<bar>
                  \<longrightarrow> (2::real) powr of_int k \<le> 2 powr of_int j))
       \<and> (\<forall>m::int. x = 2 powr of_int m \<longrightarrow> nearestPow2 (PyFloat x) = Inr (Fin x))
       \<and> (\<forall>n::int. x = of_int n \<and> n \<le> 2 ^ 53
              \<longrightarrow> nearestPow2 (PyInt n) = nearestPow2 (PyFloat x))
       \<and> nearestPow2 (PyInt 3) = Inr (Fin 2)
       \<and> nearestPow2 (PyInt 15) = Inr (Fin 16)
       \<and> nearestPow2 (PyInt 8) = Inr (Fin 8)"
proof -
  have pos: "0 < x" by (rule in_range_pos [OF assms(1)])
  have ex3: "nearestPow2 (PyInt 3) = Inr (Fin 2)"
    using nearestPow2_PyInt [of 3] nearestPow2_3 by simp
  have ex15: "nearestPow2 (PyInt 15) = Inr (Fin 16)"
    using nearestPow2_PyInt [of 15] nearestPow2_15 by simp
  have ex8: "nearestPow2 (PyInt 8) = Inr (Fin 8)"
    using nearestPow2_PyInt [of 8] nearestPow2_8 by simp
  have exact: "nearestPow2 (PyFloat x) = Inr (Fin x)" if m: "x = 2 powr of_int m" for m :: int
  proof -
    have "- 1074 \<le> real_of_int m" using assms(1) unfolding m by simp
    then have lo: "- 1074 \<le> m" by linarith
    have e: "(2::real) powr 1023 = 2 ^ 1023" by simp
    have "(2::real) powr of_int m \<le> 2 powr 1023" unfolding e using assms(2) unfolding m .
    then have "real_of_int m \<le> 1023" by (subst (asm) powr_le_cancel_iff) simp_all
    then have hi: "m \<le> 1023" by linarith
    show ?thesis unfolding m by (rule nearestPow2_exact [OF lo hi])
  qed
  have ints: "nearestPow2 (PyInt n) = nearestPow2 (PyFloat x)"
    if n: "x = of_int n" "n \<le> 2 ^ 53" for n :: int
  proof -
    have "0 \<le> n" using pos n(1) by simp
    then show ?thesis unfolding n(1) using n(2) by (rule nearestPow2_PyInt)
  qed
  show ?thesis
    using nearestPow2_closest [OF assms] exact ints ex3 ex15 ex8 by blast
qed

theorem nearestPow2_nearest_witness:
  "2 powr (- 1074) \<le> (3::real) \<and> (3::real) \<le> 2 ^ 1023
     \<and> nearestPow2 (PyFloat 3) = Inr (Fin 2) \<and> nearestPow2 (PyInt 3) = Inr (Fin 2)
     \<and> (\<exists>k::int. nearestPow2 (PyFloat 3) = Inr (Fin (2 powr of_int k))
           \<and> (\<forall>j::int. \<bar>2 powr of_int k - 3\<bar> \<le> \<bar>2 powr of_int j - (3::real)\<bar>))"
proof -
  have "(2::real) powr (- 1074) \<le> 2 powr 0" by (intro powr_mono) simp_all
  then have h1: "2 powr (- 1074) \<le> (3::real)" by simp
  have h2: "(3::real) \<le> 2 ^ 1023" by simp
  note t = nearestPow2_nearest [OF h1 h2]
  from t have n: "\<forall>n::int. (3::real) = of_int n \<and> n \<le> 2 ^ 53
                    \<longrightarrow> nearestPow2 (PyInt n) = nearestPow2 (PyFloat 3)" by blast
  have "(3::real) = of_int 3 \<and> (3::int) \<le> 2 ^ 53" by simp
  with n have e: "nearestPow2 (PyInt 3) = nearestPow2 (PyFloat 3)" by blast
  from t have i: "nearestPow2 (PyInt 3) = Inr (Fin 2)" by blast
  from t have k: "\<exists>k::int. nearestPow2 (PyFloat 3) = Inr (Fin (2 powr of_int k))
           \<and> (\<forall>j::int. \<bar>2 powr of_int k - 3\<bar> \<le> \<bar>2 powr of_int j - (3::real)\<bar>)" by blast
  show ?thesis using h1 h2 e i k by simp
qed

theorem nearestPow2_nearest_counterexample:
  "nearestPow2 (PyFloat (3 * 2 ^ 1022)) = Inl OverflowError
   \<and> nearestPow2 (PyInt (3 * 2 ^ 60 + 1)) = Inr (Fin (2 ^ 61))
   \<and> \<bar>(2::real) ^ 62 - (3 * 2 ^ 60 + 1)\<bar> < \<bar>2 ^ 61 - (3 * 2 ^ 60 + 1)\<bar>"
proof -
  have "nearestPow2 (PyFloat (3 * 2 ^ 1022)) = Inl OverflowError"
    by (rule nearestPow2_overflow) simp
  moreover have "\<bar>(2::real) ^ 62 - (3 * 2 ^ 60 + 1)\<bar> < \<bar>2 ^ 61 - (3 * 2 ^ 60 + 1)\<bar>"
    by simp
  ultimately show ?thesis using nearestPow2_rounded by blast
qed

text \<open>
  C2. For every sample count \<open>npts \<ge> 1\<close>, every sample rate, overlap, padding
  multiplier and requested window length: the recomputed value
  \<open>int (nearestPow2 (npts / 8))\<close> exists (as long as \<open>npts / 8\<close> is in the range
  where \<^verbatim>\<open>math.pow\<close> does not overflow, which holds for the length of every
  Python sequence) and does not exceed \<open>npts\<close>; every plan that the segmentation
  returns has \<open>nfft \<le> npts\<close>; whenever the first
  \<open>nfft = int (nearestPow2 (wlen * samp_rate))\<close> exceeds \<open>npts\<close>, the plan's
  \<open>nfft\<close> is the recomputed value; and \<open>int (nearestPow2 (100 / 8)) = 16\<close>.
\<close>

theorem segmentation_nfft_le_npts:
  assumes "1 \<le> npts"
  shows "(npts \<le> 2 ^ 1026 \<longrightarrow>
            (\<exists>m. bind (nearestPow2 (PyFloat (of_int npts / 8))) py_int = Inr m \<and> m \<le> npts))
       \<and> (\<forall>m. bind (nearestPow2 (PyFloat (of_int npts / 8))) py_int = Inr m \<longrightarrow> m \<le> npts)
       \<and> (\<forall>p. segmentation fs lap wl ml npts = Inr p \<longrightarrow> nfft p \<le> npts)
       \<and> (\<forall>p n0. segmentation fs lap wl ml npts = Inr p
              \<and> bind (nearestPow2 (PyFloat (default_wlen fs wl * fs))) py_int = Inr n0
              \<and> npts < n0
            \<longrightarrow> bind (nearestPow2 (PyFloat (of_int npts / 8))) py_int = Inr (nfft p))
       \<and> bind (nearestPow2 (PyFloat (100 / 8))) py_int = Inr 16"
proof -
  have ex: "\<exists>m. bind (nearestPow2 (PyFloat (of_int npts / 8))) py_int = Inr m \<and> m \<le> npts"
    if "npts \<le> 2 ^ 1026"
    using recomputed_nfft [OF assms that] by blast
  have rl: "m \<le> npts" if "bind (nearestPow2 (PyFloat (of_int npts / 8))) py_int = Inr m" for m
    using recomputed_nfft_le [OF assms that] by simp
  have le: "nfft p \<le> npts" if "segmentation fs lap wl ml npts = Inr p" for p
    using segmentation_nfft [OF that] rl by (auto split: if_splits)
  have re: "bind (nearestPow2 (PyFloat (of_int npts / 8))) py_int = Inr (nfft p)"
    if "segmentation fs lap wl ml npts = Inr p"
       "bind (nearestPow2 (PyFloat (default_wlen fs wl * fs))) py_int = Inr n0" "npts < n0" for p n0
    using segmentation_nfft [OF that(1)] that(2,3) by auto
  have e16: "bind (nearestPow2 (PyFloat (100 / 8))) py_int = Inr 16"
    using nearestPow2_12_5 by simp
  show ?thesis using ex rl le re e16 by blast
qed

theorem segmentation_nfft_le_npts_witness:
  "(1::int) \<le> 100 \<and> (100::int) \<le> 2 ^ 1026
   \<and> segmentation 100 (9 / 10) (Some 2) (Some 8) 100
        = Inr \<lparr>nfft = 16, pad_to = Some 128, nlap = 14\<rparr>
   \<and> bind (nearestPow2 (PyFloat (default_wlen 100 (Some 2) * 100))) py_int = Inr 256
   \<and> (100::int) < 256
   \<and> nfft \<lparr>nfft = 16, pad_to = Some 128, nlap = 14\<rparr> \<le> 100
   \<and> (\<exists>m. bind (nearestPow2 (PyFloat (of_int 100 / 8))) py_int = Inr m \<and> m \<le> 100)
   \<and> bind (nearestPow2 (PyFloat (100 / 8))) py_int = Inr 16"
proof -
  have h: "(1::int) \<le> 100" by simp
  have b: "(100::int) \<le> 2 ^ 1026" by simp
  note t = segmentation_nfft_le_npts [OF h, of 100 "9 / 10" "Some 2" "Some 8"]
  from t b have m: "\<exists>m. bind (nearestPow2 (PyFloat (of_int 100 / 8))) py_int = Inr m \<and> m \<le> 100"
    by blast
  from t have le: "\<forall>p. segmentation 100 (9 / 10) (Some 2) (Some 8) 100 = Inr p \<longrightarrow> nfft p \<le> 100"
    by blast
  from t have ex: "bind (nearestPow2 (PyFloat (100 / 8))) py_int = Inr 16" by blast
  have n0: "bind (nearestPow2 (PyFloat (default_wlen 100 (Some 2) * 100))) py_int = Inr 256"
    using nearestPow2_200 by (simp add: default_wlen_def)
  from le segmentation_recapped_100
  have l: "nfft \<lparr>nfft = 16, pad_to = Some 128, nlap = 14\<rparr> \<le> 100" by blast
  show ?thesis using h b m l ex n0 segmentation_recapped_100 by simp
qed

text \<open>
  C4 (amended). For a signal of 1000 samples at 100 Hz with every option at its
  default (window length unspecified, \<open>per_lap = 0.9\<close>, \<open>mult = 8.0\<close>): the window
  length is 1.0 s, \<open>nfft = nearestPow2 100 = 128\<close>, the overlap is 115 samples, and
  the transform length \<open>8 * 128 = 1024\<close> is handed to the estimator as
  \<^verbatim>\<open>pad_to\<close> when \<^verbatim>\<open>MATPLOTLIB_VERSION >= [0, 99, 0]\<close>. The spectrum that the
  estimator returns for this call has 513 frequency rows, 512 after the removal of the
  zero-frequency row. It has 65 rows, 64 after the removal, when no \<^verbatim>\<open>pad_to\<close> is
  handed over (older versions of the library).
\<close>

theorem end_to_end_scenario:
  assumes "length data = 1000"
  shows "default_wlen 100 (wlen defaults) = 1
       \<and> nearestPow2 (PyFloat (default_wlen 100 (wlen defaults) * 100)) = Inr (Fin 128)
       \<and> segmentation 100 (per_lap defaults) (wlen defaults) (mult defaults) (int (length data))
           = Inr \<lparr>nfft = 128, pad_to = Some 1024, nlap = 115\<rparr>
       \<and> fst (spectrogram e data 100 defaults)
           = [Specgram 100 128
                (if list_ge (MATPLOTLIB_VERSION e) [0, 99, 0] then Some 1024 else None) 115]
       \<and> raw_shape (mlab_specgram psd (detrend data) 100 128 (Some 1024) 115) = Inr (513, 513, 68)
       \<and> raw_shape (mlab_specgram psd (detrend data) 100 128 None 115) = Inr (65, 65, 68)
       \<and> (\<forall>S freq time.
            mlab_specgram psd (detrend data) 100 128 (Some 1024) 115 = Inr (S, freq, time)
            \<longrightarrow> length (fst (amplitude_transform db S freq)) = 512
              \<and> length (snd (amplitude_transform db S freq)) = 512)
       \<and> (\<forall>S freq time.
            mlab_specgram psd (detrend data) 100 128 None 115 = Inr (S, freq, time)
            \<longrightarrow> length (fst (amplitude_transform db S freq)) = 64
              \<and> length (snd (amplitude_transform db S freq)) = 64)"
proof -
  have w: "default_wlen 100 (wlen defaults) = 1"
    by (simp add: default_wlen_def defaults_def)
  have n: "nearestPow2 (PyFloat (default_wlen 100 (wlen defaults) * 100)) = Inr (Fin 128)"
    unfolding w using nearestPow2_100 by simp
  have seg: "segmentation 100 (per_lap defaults) (wlen defaults) (mult defaults) (int (length data))
             = Inr \<lparr>nfft = 128, pad_to = Some 1024, nlap = 115\<rparr>"
    using segmentation_default_1000 assms by (simp add: defaults_def)
  have tr: "fst (spectrogram e data 100 defaults)
            = [Specgram 100 128
                 (if list_ge (MATPLOTLIB_VERSION e) [0, 99, 0] then Some 1024 else None) 115]"
    using spectrogram_trace [OF seg, of e] by simp
  have len: "length (detrend data) = 1000" using assms by (simp add: length_detrend)
  have p: "raw_shape (mlab_specgram psd (detrend data) 100 128 (Some 1024) 115) = Inr (513, 513, 68)"
    by (rule shape_1000_padded [OF len])
  have u: "raw_shape (mlab_specgram psd (detrend data) 100 128 None 115) = Inr (65, 65, 68)"
    by (rule shape_1000_unpadded [OF len])
  have pa: "length (fst (amplitude_transform db S freq)) = 512
          \<and> length (snd (amplitude_transform db S freq)) = 512"
    if "mlab_specgram psd (detrend data) 100 128 (Some 1024) 115 = Inr (S, freq, time)"
    for S freq time
    using raw_shape_Inr [OF that] p by (simp add: length_amplitude_transform)
  have ua: "length (fst (amplitude_transform db S freq)) = 64
          \<and> length (snd (amplitude_transform db S freq)) = 64"
    if "mlab_specgram psd (detrend data) 100 128 None 115 = Inr (S, freq, time)"
    for S freq time
    using raw_shape_Inr [OF that] u by (simp add: length_amplitude_transform)
  show ?thesis using w n seg tr p u pa ua by blast
qed

theorem end_to_end_scenario_witness:
  "length (replicate 1000 (0::real)) = 1000
   \<and> segmentation 100 (per_lap defaults) (wlen defaults) (mult defaults)
        (int (length (replicate 1000 (0::real))))
       = Inr \<lparr>nfft = 128, pad_to = Some 1024, nlap = 115\<rparr>
   \<and> raw_shape (mlab_specgram flat_psd (detrend (replicate 1000 0)) 100 128 (Some 1024) 115)
       = Inr (513, 513, 68)
   \<and> (\<exists>S freq time.
        mlab_specgram flat_psd (detrend (replicate 1000 0)) 100 128 (Some 1024) 115
          = Inr (S, freq, time)
        \<and> length (fst (amplitude_transform False S freq)) = 512
        \<and> length (snd (amplitude_transform False S freq)) = 512)"
proof -
  have h: "length (replicate 1000 (0::real)) = 1000" by simp
  note t = end_to_end_scenario [OF h,
    of "\<lparr>MATPLOTLIB_VERSION = [1, 0, 0], specgram = mlab_specgram flat_psd\<rparr>" flat_psd False]
  obtain S freq time where
    r: "mlab_specgram flat_psd (detrend (replicate 1000 0)) 100 128 (Some 1024) 115
          = Inr (S, freq, time)"
    using mlab_specgram_returns [of 115 128 "Some 1024" flat_psd "detrend (replicate 1000 0)" 100]
    by auto
  from t r have "length (fst (amplitude_transform False S freq)) = 512
               \<and> length (snd (amplitude_transform False S freq)) = 512"
    by blast
  with r have ex: "\<exists>S freq time.
        mlab_specgram flat_psd (detrend (replicate 1000 0)) 100 128 (Some 1024) 115
          = Inr (S, freq, time)
        \<and> length (fst (amplitude_transform False S freq)) = 512
        \<and> length (snd (amplitude_transform False S freq)) = 512"
    by blast
  show ?thesis using h t ex by blast
qed

theorem end_to_end_scenario_counterexample:
  "fst (spectrogram \<lparr>MATPLOTLIB_VERSION = [1, 0, 0], specgram = mlab_specgram flat_psd\<rparr>
          (replicate 1000 0) 100 defaults)
     = [Specgram 100 128 (Some 1024) 115]
   \<and> raw_shape (mlab_specgram flat_psd (detrend (replicate 1000 0)) 100 128 (Some 1024) 115)
       = Inr (513, 513, 68)
   \<and> (513::nat) \<noteq> 65"
proof -
  have seg: "segmentation 100 (per_lap defaults) (wlen defaults) (mult defaults)
               (int (length (replicate 1000 (0::real))))
             = Inr \<lparr>nfft = 128, pad_to = Some 1024, nlap = 115\<rparr>"
    using segmentation_default_1000 by (simp add: defaults_def)
  have tr: "fst (spectrogram \<lparr>MATPLOTLIB_VERSION = [1, 0, 0], specgram = mlab_specgram flat_psd\<rparr>
                  (replicate 1000 0) 100 defaults)
            = [Specgram 100 128 (Some 1024) 115]"
    using spectrogram_trace [OF seg, of "\<lparr>MATPLOTLIB_VERSION = [1, 0, 0], specgram = mlab_specgram flat_psd\<rparr>"]
    by simp
  have sh: "raw_shape (mlab_specgram flat_psd (detrend (replicate 1000 0)) 100 128 (Some 1024) 115)
              = Inr (513, 513, 68)"
    by (rule shape_1000_padded) (simp add: length_detrend)
  show ?thesis using tr sh by simp
qed

text \<open>
  C10. For every sample rate \<open>fs > 0\<close>, a window length of zero is replaced by the
  default \<open>fs / 100\<close>, as an omitted one is: the window plan and the whole run are the
  ones obtained when the window length is omitted, and (as long as \<open>fs * fs / 100\<close> is
  in the range where \<^verbatim>\<open>math.pow\<close> does not overflow) the first FFT length is
  computed from the default instead of failing.
\<close>

theorem falsy_wlen_default:
  assumes "0 < fs"
  shows "default_wlen fs (Some 0) = fs / 100
       \<and> default_wlen fs None = fs / 100
       \<and> segmentation fs lap (Some 0) ml npts = segmentation fs lap None ml npts
       \<and> spectrogram e data fs (opts\<lparr>wlen := Some 0\<rparr>) = spectrogram e data fs (opts\<lparr>wlen := None\<rparr>)
       \<and> (fs * fs \<le> 100 * 2 ^ 1023 \<longrightarrow>
            (\<exists>n0. bind (nearestPow2 (PyFloat (default_wlen fs (Some 0) * fs))) py_int = Inr n0
                 \<and> 0 \<le> n0))"
proof -
  have d0: "default_wlen fs (Some 0) = fs / 100" by (simp add: default_wlen_def)
  have dn: "default_wlen fs None = fs / 100" by (simp add: default_wlen_def)
  have seg: "segmentation fs lap (Some 0) ml npts = segmentation fs lap None ml npts"
    for lap ml npts
    unfolding segmentation_def d0 dn ..
  have f: "per_lap (opts\<lparr>wlen := w\<rparr>) = per_lap opts" "wlen (opts\<lparr>wlen := w\<rparr>) = w"
    "mult (opts\<lparr>wlen := w\<rparr>) = mult opts" "dbscale (opts\<lparr>wlen := w\<rparr>) = dbscale opts"
    "clip (opts\<lparr>wlen := w\<rparr>) = clip opts" "log_flag (opts\<lparr>wlen := w\<rparr>) = log_flag opts"
    for w
    by simp_all
  have run: "spectrogram e data fs (opts\<lparr>wlen := Some 0\<rparr>)
               = spectrogram e data fs (opts\<lparr>wlen := None\<rparr>)"
    unfolding spectrogram_def f seg ..
  have first: "\<exists>n0. bind (nearestPow2 (PyFloat (default_wlen fs (Some 0) * fs))) py_int = Inr n0
                 \<and> 0 \<le> n0"
    if "fs * fs \<le> 100 * 2 ^ 1023"
  proof -
    have pos: "0 < fs / 100 * fs" using assms by simp
    have hi: "fs / 100 * fs \<le> 2 ^ 1023" using that by simp
    obtain r where r: "nearestPow2 (PyFloat (fs / 100 * fs)) = Inr (Fin r)" "0 \<le> r"
      using nearestPow2_returns [OF pos hi] by blast
    show ?thesis unfolding d0 r(1) using r(2) by simp
  qed
  show ?thesis using d0 dn seg run first by blast
qed

theorem falsy_wlen_default_witness:
  "(0::real) < 100 \<and> (100::real) * 100 \<le> 100 * 2 ^ 1023
   \<and> default_wlen 100 (Some 0) = 1
   \<and> segmentation 100 (9 / 10) (Some 0) (Some 8) 1000
       = Inr \<lparr>nfft = 128, pad_to = Some 1024, nlap = 115\<rparr>
   \<and> (\<exists>n0. bind (nearestPow2 (PyFloat (default_wlen 100 (Some 0) * 100))) py_int = Inr n0
          \<and> 0 \<le> n0)"
proof -
  have h: "(0::real) < 100" by simp
  have b: "(100::real) * 100 \<le> 100 * 2 ^ 1023" by simp
  note t = falsy_wlen_default [OF h, of "9 / 10" "Some 8" 1000]
  from t have d: "default_wlen 100 (Some 0) = 1" by simp
  from t have s: "segmentation 100 (9 / 10) (Some 0) (Some 8) 1000
                    = segmentation 100 (9 / 10) None (Some 8) 1000" by blast
  from t b have n: "\<exists>n0. bind (nearestPow2 (PyFloat (default_wlen 100 (Some 0) * 100))) py_int = Inr n0
          \<and> 0 \<le> n0" by blast
  show ?thesis using h b d n s segmentation_default_1000 by simp
qed

text \<open>
  C5. For every grid and every clip pair \<open>(lo, hi)\<close>, the colour normalizer raises the
  error of the clip option (\<^verbatim>\<open>ValueError\<close> with the message of line 153) if and only
  if \<open>lo < 0\<close> or \<open>hi > 1\<close> or \<open>lo >= hi\<close>, the comparisons being those of Python
  floats; for numbers they are the comparisons of the reals. A pair that passes the
  test gives colour bounds whenever the grid has an element. The pairs \<open>(0.5, 0.3)\<close>,
  \<open>(-0.1, 1.0)\<close> and \<open>(0.0, 1.2)\<close> are rejected, \<open>(0.0, 1.0)\<close> and \<open>(0.1, 0.9)\<close>
  are accepted.
\<close>

theorem clip_validation:
  "(color_normalizer S (lo, hi) = Inl (ValueError clip_msg)
      \<longleftrightarrow> fless lo (Fin 0) \<or> fless (Fin 1) hi \<or> fge lo hi)
   \<and> (color_normalizer S (Fin l, Fin h) = Inl (ValueError clip_msg)
      \<longleftrightarrow> l < 0 \<or> 1 < h \<or> h \<le> l)
   \<and> (concat S \<noteq> [] \<and> 0 \<le> l \<and> h \<le> 1 \<and> l < h
      \<longrightarrow> (\<exists>b. color_normalizer S (Fin l, Fin h) = Inr b))
   \<and> color_normalizer S (Fin (1 / 2), Fin (3 / 10)) = Inl (ValueError clip_msg)
   \<and> color_normalizer S (Fin (- 1 / 10), Fin 1) = Inl (ValueError clip_msg)
   \<and> color_normalizer S (Fin 0, Fin (12 / 10)) = Inl (ValueError clip_msg)
   \<and> color_normalizer S (Fin 0, Fin 1) \<noteq> Inl (ValueError clip_msg)
   \<and> color_normalizer S (Fin (1 / 10), Fin (9 / 10)) \<noteq> Inl (ValueError clip_msg)"
proof -
  have r: "color_normalizer S (Fin l, Fin h) = Inl (ValueError clip_msg)
             \<longleftrightarrow> l < 0 \<or> 1 < h \<or> h \<le> l" for l h :: real
    unfolding color_normalizer_iff by auto
  have ok: "\<exists>b. color_normalizer S (Fin l, Fin h) = Inr b"
    if "concat S \<noteq> [] \<and> 0 \<le> l \<and> h \<le> 1 \<and> l < h"
  proof -
    have v: "\<not> (fless (Fin l) (Fin 0) \<or> fless (Fin 1) (Fin h) \<or> fge (Fin l) (Fin h))"
      using that by simp
    show ?thesis using color_normalizer_valid_returns [OF v] that by blast
  qed
  have e1: "color_normalizer S (Fin (1 / 2), Fin (3 / 10)) = Inl (ValueError clip_msg)"
    unfolding r by simp
  have e2: "color_normalizer S (Fin (- 1 / 10), Fin 1) = Inl (ValueError clip_msg)"
    unfolding r by simp
  have e3: "color_normalizer S (Fin 0, Fin (12 / 10)) = Inl (ValueError clip_msg)"
    unfolding r by simp
  have e4: "color_normalizer S (Fin 0, Fin 1) \<noteq> Inl (ValueError clip_msg)"
    unfolding r by simp
  have e5: "color_normalizer S (Fin (1 / 10), Fin (9 / 10)) \<noteq> Inl (ValueError clip_msg)"
    unfolding r by simp
  show ?thesis using color_normalizer_iff [of S lo hi] r [of l h] ok e1 e2 e3 e4 e5 by blast
qed

theorem clip_validation_witness:
  "concat [[Fin 1, Fin 3]] \<noteq> [] \<and> (0::real) \<le> 1 / 10 \<and> (9 / 10 :: real) \<le> 1
   \<and> (1 / 10 :: real) < 9 / 10
   \<and> color_normalizer [[Fin 1, Fin 3]] (Fin (1 / 10), Fin (9 / 10))
       = Inr (Fin (12 / 10), Fin (28 / 10))
   \<and> color_normalizer [[Fin 1, Fin 3]] (Fin (1 / 2), Fin (3 / 10)) = Inl (ValueError clip_msg)"
proof -
  note t = clip_validation [of "[[Fin 1, Fin 3]]" "Fin (1 / 2)" "Fin (3 / 10)" "1 / 10" "9 / 10"]
  have h: "concat [[Fin 1, Fin 3]] \<noteq> [] \<and> (0::real) \<le> 1 / 10 \<and> (9 / 10 :: real) \<le> 1
             \<and> (1 / 10 :: real) < 9 / 10" by simp
  from t h obtain b where b: "color_normalizer [[Fin 1, Fin 3]] (Fin (1 / 10), Fin (9 / 10)) = Inr b"
    by blast
  have v: "color_normalizer [[Fin 1, Fin 3]] (Fin (1 / 10), Fin (9 / 10))
             = Inr (Fin (12 / 10), Fin (28 / 10))"
    by (simp add: color_normalizer_def np_max_def np_min_def Let_def)
  from t have r: "color_normalizer [[Fin 1, Fin 3]] (Fin (1 / 2), Fin (3 / 10))
                    = Inl (ValueError clip_msg)" by blast
  show ?thesis using h b v r by simp
qed

text \<open>
  C6. For every raw spectrum (a grid with at least the zero-frequency row, a frequency
  vector with at least the zero frequency) and both values of \<open>dbscale\<close>, the amplitude
  transform gives the rows after the first one, each element \<open>v\<close> replaced by
  \<open>10 * log10 v\<close> when \<open>dbscale\<close> is true and by \<open>sqrt v\<close> otherwise, and the
  frequencies after the first one. So the scaled grid has one row less than the raw one,
  its row \<open>i\<close> comes from the raw row \<open>i + 1\<close>, and neither the zero-frequency row nor
  the zero frequency has any influence on the output. On positive powers the two
  scalings are the real functions \<open>10 * log 10\<close> and \<open>sqrt\<close>.
\<close>

theorem amplitude_transform_drops_dc:
  assumes "S \<noteq> []" and "freq \<noteq> []"
  shows "amplitude_transform db S freq
           = (map (map (\<lambda>v. if db then fmul (Fin 10) (np_log10 (Fin v)) else np_sqrt (Fin v))) (tl S),
              tl freq)
       \<and> int (length (fst (amplitude_transform db S freq))) = int (length S) - 1
       \<and> int (length (snd (amplitude_transform db S freq))) = int (length freq) - 1
       \<and> (\<forall>i j. i < length (fst (amplitude_transform db S freq)) \<and> j < length (S ! Suc i)
            \<longrightarrow> fst (amplitude_transform db S freq) ! i ! j
                  = (if db then fmul (Fin 10) (np_log10 (Fin (S ! Suc i ! j)))
                     else np_sqrt (Fin (S ! Suc i ! j))))
       \<and> (\<forall>i. i < length (fst (amplitude_transform db S freq))
            \<longrightarrow> length (fst (amplitude_transform db S freq) ! i) = length (S ! Suc i))
       \<and> (\<forall>i. i < length (snd (amplitude_transform db S freq))
            \<longrightarrow> snd (amplitude_transform db S freq) ! i = freq ! Suc i)
       \<and> (\<forall>r f. amplitude_transform db (r # tl S) (f # tl freq) = amplitude_transform db S freq)
       \<and> (\<forall>v. 0 < v \<longrightarrow> fmul (Fin 10) (np_log10 (Fin v)) = Fin (10 * log 10 v))
       \<and> (\<forall>v. 0 \<le> v \<longrightarrow> np_sqrt (Fin v) = Fin (sqrt v))"
proof -
  obtain r rest where S: "S = r # rest" using assms(1) by (cases S) auto
  obtain f fs where freq: "freq = f # fs" using assms(2) by (cases freq) auto
  let ?g = "\<lambda>v. if db then fmul (Fin 10) (np_log10 (Fin v)) else np_sqrt (Fin v)"
  have eq: "amplitude_transform db S freq = (map (map ?g) (tl S), tl freq)"
    unfolding S freq amplitude_transform_Cons by simp
  have rows: "int (length (fst (amplitude_transform db S freq))) = int (length S) - 1"
    unfolding S freq amplitude_transform_Cons by simp
  have fl: "int (length (snd (amplitude_transform db S freq))) = int (length freq) - 1"
    unfolding S freq amplitude_transform_Cons by simp
  have el: "fst (amplitude_transform db S freq) ! i ! j = ?g (S ! Suc i ! j)"
    if "i < length (fst (amplitude_transform db S freq)) \<and> j < length (S ! Suc i)" for i j
    using that unfolding S freq amplitude_transform_Cons by simp
  have rl: "length (fst (amplitude_transform db S freq) ! i) = length (S ! Suc i)"
    if "i < length (fst (amplitude_transform db S freq))" for i
    using that unfolding S freq amplitude_transform_Cons by simp
  have fr: "snd (amplitude_transform db S freq) ! i = freq ! Suc i"
    if "i < length (snd (amplitude_transform db S freq))" for i
    using that unfolding S freq amplitude_transform_Cons by simp
  have ind: "amplitude_transform db (r' # tl S) (f' # tl freq) = amplitude_transform db S freq"
    for r' f'
    unfolding S freq amplitude_transform_Cons by simp
  have lg: "fmul (Fin 10) (np_log10 (Fin v)) = Fin (10 * log 10 v)" if "0 < v" for v
    using that by simp
  have sq: "np_sqrt (Fin v) = Fin (sqrt v)" if "0 \<le> v" for v
    using that by simp
  show ?thesis using eq rows fl el rl fr ind lg sq by blast
qed

theorem amplitude_transform_drops_dc_witness:
  "[[1, 1], [4, 4 :: real]] \<noteq> [] \<and> [0, 5 :: real] \<noteq> []
   \<and> amplitude_transform False [[1, 1], [4, 4]] [0, 5] = ([[Fin 2, Fin 2]], [5])
   \<and> amplitude_transform True [[1, 1], [10, 10]] [0, 5] = ([[Fin 10, Fin 10]], [5])
   \<and> (0::nat) < length (fst (amplitude_transform False [[1, 1], [4, 4]] [0, 5]))
   \<and> (1::nat) < length ([[1, 1], [4, 4 :: real]] ! Suc 0)
   \<and> fst (amplitude_transform False [[1, 1], [4, 4]] [0, 5]) ! 0 ! 1 = Fin 2
   \<and> snd (amplitude_transform False [[1, 1], [4, 4]] [0, 5]) ! 0 = 5"
proof -
  have h1: "[[1, 1], [4, 4 :: real]] \<noteq> []" by simp
  have h1': "[[1, 1], [10, 10 :: real]] \<noteq> []" by simp
  have h2: "[0, 5 :: real] \<noteq> []" by simp
  note t = amplitude_transform_drops_dc [OF h1 h2, of False]
  note u = amplitude_transform_drops_dc [OF h1' h2, of True]
  from t have a: "amplitude_transform False [[1, 1], [4, 4]] [0, 5] = ([[Fin 2, Fin 2]], [5])"
    by simp
  from u have b: "amplitude_transform True [[1, 1], [10, 10]] [0, 5] = ([[Fin 10, Fin 10]], [5])"
    by simp
  show ?thesis unfolding a b by simp
qed

text \<open>
  C8. In logarithmic mode, for every frequency vector of length \<open>N \<ge> 2\<close> and time
  vector of length \<open>M \<ge> 2\<close> that are strictly ascending (uniform spacing is not
  needed), the axis binner returns edge vectors of lengths \<open>N + 1\<close> and \<open>M + 1\<close>, which
  are the vectors with \<open>last + 2 * halfbin\<close> appended and the half-bin width
  \<open>(v[1] - v[0]) / 2\<close> subtracted from every element, and both edge vectors are
  strictly increasing.
\<close>

theorem log_axis_edges:
  assumes "2 \<le> length freq" and "2 \<le> length time"
    and "sorted_wrt (<) freq" and "sorted_wrt (<) time"
  shows "\<exists>timeEdges freqEdges.
           axis_binner True time freq = Inr (Edges timeEdges freqEdges)
         \<and> length freqEdges = length freq + 1
         \<and> length timeEdges = length time + 1
         \<and> freqEdges = map (\<lambda>f. f - (freq ! 1 - freq ! 0) / 2)
                          (freq @ [last freq + 2 * ((freq ! 1 - freq ! 0) / 2)])
         \<and> timeEdges = map (\<lambda>t. t - (time ! 1 - time ! 0) / 2)
                          (time @ [last time + 2 * ((time ! 1 - time ! 0) / 2)])
         \<and> sorted_wrt (<) freqEdges
         \<and> sorted_wrt (<) timeEdges"
proof -
  let ?te = "map (\<lambda>t. t - (time ! 1 - time ! 0) / 2)
               (time @ [last time + 2 * ((time ! 1 - time ! 0) / 2)])"
  let ?fe = "map (\<lambda>f. f - (freq ! 1 - freq ! 0) / 2)
               (freq @ [last freq + 2 * ((freq ! 1 - freq ! 0) / 2)])"
  have r: "axis_binner True time freq = Inr (Edges ?te ?fe)"
    by (rule axis_binner_log [OF assms(2) assms(1)])
  have lf: "length ?fe = length freq + 1" by simp
  have lt: "length ?te = length time + 1" by simp
  have sf: "sorted_wrt (<) ?fe"
    by (rule edges_sorted [OF assms(3) half_bin_pos [OF assms(3) assms(1)]])
  have st: "sorted_wrt (<) ?te"
    by (rule edges_sorted [OF assms(4) half_bin_pos [OF assms(4) assms(2)]])
  show ?thesis using r lf lt sf st by blast
qed

theorem log_axis_edges_witness:
  "(2::nat) \<le> length [10, 20, 30 :: real] \<and> (2::nat) \<le> length [1, 3 :: real]
   \<and> sorted_wrt (<) [10, 20, 30 :: real] \<and> sorted_wrt (<) [1, 3 :: real]
   \<and> axis_binner True [1, 3] [10, 20, 30] = Inr (Edges [0, 2, 4] [5, 15, 25, 35])
   \<and> (\<exists>timeEdges freqEdges.
         axis_binner True [1, 3] [10, 20, 30] = Inr (Edges timeEdges freqEdges)
       \<and> length freqEdges = 4 \<and> length timeEdges = 3
       \<and> sorted_wrt (<) freqEdges \<and> sorted_wrt (<) timeEdges)"
proof -
  have h1: "(2::nat) \<le> length [10, 20, 30 :: real]" by simp
  have h2: "(2::nat) \<le> length [1, 3 :: real]" by simp
  have h3: "sorted_wrt (<) [10, 20, 30 :: real]" by simp
  have h4: "sorted_wrt (<) [1, 3 :: real]" by simp
  have v: "axis_binner True [1, 3] [10, 20, 30] = Inr (Edges [0, 2, 4] [5, 15, 25, 35])"
    by (simp add: axis_binner_def half_bins_def Let_def)
  from log_axis_edges [OF h1 h2 h3 h4]
  have "\<exists>timeEdges freqEdges.
         axis_binner True [1, 3] [10, 20, 30] = Inr (Edges timeEdges freqEdges)
       \<and> length freqEdges = 4 \<and> length timeEdges = 3
       \<and> sorted_wrt (<) freqEdges \<and> sorted_wrt (<) timeEdges"
    by auto
  then show ?thesis using h1 h2 h3 h4 v by blast
qed

text \<open>
  C3 (amended). The errors of the window plan (lines 122 to 129) and the division by a
  sample rate of zero (line 132) end the run before the estimator is called. Once the
  plan is computed and the sample rate is not zero, the estimator is called, with the
  parameters of the plan, whatever the clip pair is; an error of the estimator ends the
  run; and the clip pair is tested only after the estimator has returned a spectrum: an
  invalid pair then ends the run with the error of the clip option.
\<close>

theorem clip_checked_after_estimator:
  "(\<forall>err. segmentation fs (per_lap opts) (wlen opts) (mult opts) (int (length data)) = Inl err
       \<longrightarrow> spectrogram e data fs opts = ([], Inl err))
   \<and> (\<forall>p. segmentation fs (per_lap opts) (wlen opts) (mult opts) (int (length data)) = Inr p
          \<and> fs = 0
       \<longrightarrow> spectrogram e data fs opts = ([], Inl ZeroDivisionError))
   \<and> (\<forall>p. segmentation fs (per_lap opts) (wlen opts) (mult opts) (int (length data)) = Inr p
          \<and> fs \<noteq> 0
       \<longrightarrow> fst (spectrogram e data fs opts)
             = [Specgram fs (nfft p)
                  (if list_ge (MATPLOTLIB_VERSION e) [0, 99, 0] then pad_to p else None) (nlap p)])
   \<and> (\<forall>p err. segmentation fs (per_lap opts) (wlen opts) (mult opts) (int (length data)) = Inr p
          \<and> fs \<noteq> 0
          \<and> specgram e (detrend data) fs (nfft p)
                (if list_ge (MATPLOTLIB_VERSION e) [0, 99, 0] then pad_to p else None) (nlap p)
              = Inl err
       \<longrightarrow> snd (spectrogram e data fs opts) = Inl err)
   \<and> (\<forall>p S freq time lo hi.
          segmentation fs (per_lap opts) (wlen opts) (mult opts) (int (length data)) = Inr p
          \<and> fs \<noteq> 0
          \<and> specgram e (detrend data) fs (nfft p)
                (if list_ge (MATPLOTLIB_VERSION e) [0, 99, 0] then pad_to p else None) (nlap p)
              = Inr (S, freq, time)
          \<and> clip opts = (lo, hi)
          \<and> (fless lo (Fin 0) \<or> fless (Fin 1) hi \<or> fge lo hi)
       \<longrightarrow> snd (spectrogram e data fs opts) = Inl (ValueError clip_msg))"
proof -
  have a: "spectrogram e data fs opts = ([], Inl err)"
    if "segmentation fs (per_lap opts) (wlen opts) (mult opts) (int (length data)) = Inl err"
    for err
    by (rule spectrogram_plan_error [OF that])
  have b: "spectrogram e data fs opts = ([], Inl ZeroDivisionError)"
    if "segmentation fs (per_lap opts) (wlen opts) (mult opts) (int (length data)) = Inr p
          \<and> fs = 0"
    for p
    using that spectrogram_zero_rate [of fs opts data p e] by blast
  have c: "fst (spectrogram e data fs opts)
             = [Specgram fs (nfft p)
                  (if list_ge (MATPLOTLIB_VERSION e) [0, 99, 0] then pad_to p else None) (nlap p)]"
    if "segmentation fs (per_lap opts) (wlen opts) (mult opts) (int (length data)) = Inr p
          \<and> fs \<noteq> 0"
    for p
    using that spectrogram_trace [of fs opts data p e] by blast
  have d: "snd (spectrogram e data fs opts) = Inl err"
    if "segmentation fs (per_lap opts) (wlen opts) (mult opts) (int (length data)) = Inr p
          \<and> fs \<noteq> 0
          \<and> specgram e (detrend data) fs (nfft p)
                (if list_ge (MATPLOTLIB_VERSION e) [0, 99, 0] then pad_to p else None) (nlap p)
              = Inl err"
    for p err
    using that spectrogram_estimator_error [of fs opts data p e err] by blast
  have f: "snd (spectrogram e data fs opts) = Inl (ValueError clip_msg)"
    if "segmentation fs (per_lap opts) (wlen opts) (mult opts) (int (length data)) = Inr p
          \<and> fs \<noteq> 0
          \<and> specgram e (detrend data) fs (nfft p)
                (if list_ge (MATPLOTLIB_VERSION e) [0, 99, 0] then pad_to p else None) (nlap p)
              = Inr (S, freq, time)
          \<and> clip opts = (lo, hi)
          \<and> (fless lo (Fin 0) \<or> fless (Fin 1) hi \<or> fge lo hi)"
    for p S freq time lo hi
    using that spectrogram_invalid_clip [of fs opts data p e S freq time lo hi] by blast
  show ?thesis using a b c d f by blast
qed

theorem clip_checked_after_estimator_witness:
  "segmentation 100 (per_lap (defaults\<lparr>clip := (Fin (1 / 2), Fin (3 / 10))\<rparr>))
       (wlen (defaults\<lparr>clip := (Fin (1 / 2), Fin (3 / 10))\<rparr>))
       (mult (defaults\<lparr>clip := (Fin (1 / 2), Fin (3 / 10))\<rparr>))
       (int (length (replicate 1000 (0::real))))
     = Inr \<lparr>nfft = 128, pad_to = Some 1024, nlap = 115\<rparr>
   \<and> (100::real) \<noteq> 0
   \<and> raw_shape (mlab_specgram flat_psd (detrend (replicate 1000 0)) 100 128 (Some 1024) 115)
       = Inr (513, 513, 68)
   \<and> clip (defaults\<lparr>clip := (Fin (1 / 2), Fin (3 / 10))\<rparr>) = (Fin (1 / 2), Fin (3 / 10))
   \<and> fge (Fin (1 / 2)) (Fin (3 / 10))
   \<and> fst (spectrogram \<lparr>MATPLOTLIB_VERSION = [1, 0, 0], specgram = mlab_specgram flat_psd\<rparr>
            (replicate 1000 0) 100 (defaults\<lparr>clip := (Fin (1 / 2), Fin (3 / 10))\<rparr>))
       = [Specgram 100 128 (Some 1024) 115]
   \<and> snd (spectrogram \<lparr>MATPLOTLIB_VERSION = [1, 0, 0], specgram = mlab_specgram flat_psd\<rparr>
            (replicate 1000 0) 100 (defaults\<lparr>clip := (Fin (1 / 2), Fin (3 / 10))\<rparr>))
       = Inl (ValueError clip_msg)
   \<and> segmentation 100 (per_lap (defaults\<lparr>wlen := Some (- 1)\<rparr>))
         (wlen (defaults\<lparr>wlen := Some (- 1)\<rparr>)) (mult (defaults\<lparr>wlen := Some (- 1)\<rparr>))
         (int (length (replicate 1000 (0::real))))
       = Inl (ValueError ''cannot convert float NaN to integer'')
   \<and> spectrogram \<lparr>MATPLOTLIB_VERSION = [1, 0, 0], specgram = mlab_specgram flat_psd\<rparr>
         (replicate 1000 0) 100 (defaults\<lparr>wlen := Some (- 1)\<rparr>)
       = ([], Inl (ValueError ''cannot convert float NaN to integer''))"
proof -
  let ?e = "\<lparr>MATPLOTLIB_VERSION = [1, 0, 0], specgram = mlab_specgram flat_psd\<rparr>"
  let ?o = "defaults\<lparr>clip := (Fin (1 / 2), Fin (3 / 10))\<rparr>"
  let ?n = "defaults\<lparr>wlen := Some (- 1)\<rparr>"
  let ?d = "replicate 1000 (0::real)"
  have seg: "segmentation 100 (per_lap ?o) (wlen ?o) (mult ?o) (int (length ?d))
               = Inr \<lparr>nfft = 128, pad_to = Some 1024, nlap = 115\<rparr>"
    using segmentation_default_1000 by (simp add: defaults_def)
  have neg: "segmentation 100 (per_lap ?n) (wlen ?n) (mult ?n) (int (length ?d))
               = Inl (ValueError ''cannot convert float NaN to integer'')"
    using segmentation_negative_wlen by (simp add: defaults_def)
  have sh: "raw_shape (mlab_specgram flat_psd (detrend ?d) 100 128 (Some 1024) 115)
              = Inr (513, 513, 68)"
    by (rule shape_1000_padded) (simp add: length_detrend)
  obtain S freq time where
    r: "mlab_specgram flat_psd (detrend ?d) 100 128 (Some 1024) 115 = Inr (S, freq, time)"
    using mlab_specgram_returns [of 115 128 "Some 1024" flat_psd "detrend ?d" 100] by auto
  have est: "specgram ?e (detrend ?d) 100 (nfft \<lparr>nfft = 128, pad_to = Some 1024, nlap = 115\<rparr>)
               (if list_ge (MATPLOTLIB_VERSION ?e) [0, 99, 0]
                then pad_to \<lparr>nfft = 128, pad_to = Some 1024, nlap = 115\<rparr> else None)
               (nlap \<lparr>nfft = 128, pad_to = Some 1024, nlap = 115\<rparr>)
             = Inr (S, freq, time)"
    using r by simp
  have cl: "clip ?o = (Fin (1 / 2), Fin (3 / 10))" by (simp add: defaults_def)
  have bad: "fge (Fin (1 / 2)) (Fin (3 / 10))" by simp
  have nz: "(100::real) \<noteq> 0" by simp
  note t = clip_checked_after_estimator [of 100 ?o ?d ?e]
  note u = clip_checked_after_estimator [of 100 ?n ?d ?e]
  from t seg nz have tr: "fst (spectrogram ?e ?d 100 ?o)
      = [Specgram 100 (nfft \<lparr>nfft = 128, pad_to = Some 1024, nlap = 115\<rparr>)
           (if list_ge (MATPLOTLIB_VERSION ?e) [0, 99, 0]
            then pad_to \<lparr>nfft = 128, pad_to = Some 1024, nlap = 115\<rparr> else None)
           (nlap \<lparr>nfft = 128, pad_to = Some 1024, nlap = 115\<rparr>)]"
    by blast
  then have tr': "fst (spectrogram ?e ?d 100 ?o) = [Specgram 100 128 (Some 1024) 115]"
    by simp
  from t seg nz est cl bad
  have res: "snd (spectrogram ?e ?d 100 ?o) = Inl (ValueError clip_msg)"
    by blast
  from u neg
  have pl: "spectrogram ?e ?d 100 ?n = ([], Inl (ValueError ''cannot convert float NaN to integer''))"
    by blast
  show ?thesis using seg nz sh cl bad tr' res neg pl by blast
qed

theorem clip_checked_after_estimator_counterexample:
  "fge (Fin (1 / 2)) (Fin (3 / 10))
   \<and> clip (defaults\<lparr>clip := (Fin (1 / 2), Fin (3 / 10))\<rparr>) = (Fin (1 / 2), Fin (3 / 10))
   \<and> fst (spectrogram \<lparr>MATPLOTLIB_VERSION = [1, 0, 0], specgram = mlab_specgram flat_psd\<rparr>
            (replicate 1000 0) 100 (defaults\<lparr>clip := (Fin (1 / 2), Fin (3 / 10))\<rparr>))
       = [Specgram 100 128 (Some 1024) 115]
   \<and> raw_shape (mlab_specgram flat_psd (detrend (replicate 1000 0)) 100 128 (Some 1024) 115)
       = Inr (513, 513, 68)
   \<and> snd (spectrogram \<lparr>MATPLOTLIB_VERSION = [1, 0, 0], specgram = mlab_specgram flat_psd\<rparr>
            (replicate 1000 0) 100 (defaults\<lparr>clip := (Fin (1 / 2), Fin (3 / 10))\<rparr>))
       = Inl (ValueError clip_msg)"
proof -
  let ?e = "\<lparr>MATPLOTLIB_VERSION = [1, 0, 0], specgram = mlab_specgram flat_psd\<rparr>"
  let ?o = "defaults\<lparr>clip := (Fin (1 / 2), Fin (3 / 10))\<rparr>"
  let ?d = "replicate 1000 (0::real)"
  have seg: "segmentation 100 (per_lap ?o) (wlen ?o) (mult ?o) (int (length ?d))
               = Inr \<lparr>nfft = 128, pad_to = Some 1024, nlap = 115\<rparr>"
    using segmentation_default_1000 by (simp add: defaults_def)
  have nz: "(100::real) \<noteq> 0" by simp
  have sh: "raw_shape (mlab_specgram flat_psd (detrend ?d) 100 128 (Some 1024) 115)
              = Inr (513, 513, 68)"
    by (rule shape_1000_padded) (simp add: length_detrend)
  obtain S freq time where
    r: "mlab_specgram flat_psd (detrend ?d) 100 128 (Some 1024) 115 = Inr (S, freq, time)"
    using mlab_specgram_returns [of 115 128 "Some 1024" flat_psd "detrend ?d" 100] by auto
  have est: "specgram ?e (detrend ?d) 100 (nfft \<lparr>nfft = 128, pad_to = Some 1024, nlap = 115\<rparr>)
               (if list_ge (MATPLOTLIB_VERSION ?e) [0, 99, 0]
                then pad_to \<lparr>nfft = 128, pad_to = Some 1024, nlap = 115\<rparr> else None)
               (nlap \<lparr>nfft = 128, pad_to = Some 1024, nlap = 115\<rparr>)
             = Inr (S, freq, time)"
    using r by simp
  have cl: "clip ?o = (Fin (1 / 2), Fin (3 / 10))" by (simp add: defaults_def)
  have bad: "fless (Fin (1 / 2)) (Fin 0) \<or> fless (Fin 1) (Fin (3 / 10)) \<or> fge (Fin (1 / 2)) (Fin (3 / 10))"
    by simp
  have tr: "fst (spectrogram ?e ?d 100 ?o) = [Specgram 100 128 (Some 1024) 115]"
    using spectrogram_trace [OF seg nz, of ?e] by simp
  have res: "snd (spectrogram ?e ?d 100 ?o) = Inl (ValueError clip_msg)"
    by (rule spectrogram_invalid_clip [OF seg nz est cl bad])
  show ?thesis using cl tr sh res by simp
qed

text \<open>
  C9 (amended). For every run in which the estimator returns a spectrum with a single
  time bin, or with a single frequency bin after the removal of the zero frequency, in
  which the clip pair passes the test of line 152 and the scaled grid has at least one
  element (so that \<^verbatim>\<open>max\<close> and \<^verbatim>\<open>min\<close> return): the half-bin computation of
  lines 167 and 168 reads element 1 of a vector of length 1 and the run ends with
  \<^verbatim>\<open>IndexError\<close>.
\<close>

theorem single_bin_index_error:
  assumes "segmentation fs (per_lap opts) (wlen opts) (mult opts) (int (length data)) = Inr p"
    and "fs \<noteq> 0"
    and "specgram e (detrend data) fs (nfft p)
           (if list_ge (MATPLOTLIB_VERSION e) [0, 99, 0] then pad_to p else None) (nlap p)
         = Inr (S, freq, time)"
    and "length time = 1 \<or> length (snd (amplitude_transform (dbscale opts) S freq)) = 1"
    and "clip opts = (lo, hi)"
    and "\<not> (fless lo (Fin 0) \<or> fless (Fin 1) hi \<or> fge lo hi)"
    and "concat (fst (amplitude_transform (dbscale opts) S freq)) \<noteq> []"
  shows "snd (spectrogram e data fs opts) = Inl IndexError
       \<and> half_bins time (snd (amplitude_transform (dbscale opts) S freq)) = Inl IndexError
       \<and> fst (spectrogram e data fs opts)
           = [Specgram fs (nfft p)
                (if list_ge (MATPLOTLIB_VERSION e) [0, 99, 0] then pad_to p else None) (nlap p)]"
proof -
  have r: "snd (spectrogram e data fs opts) = Inl IndexError"
    by (rule spectrogram_single_bin [OF assms])
  have h: "half_bins time (snd (amplitude_transform (dbscale opts) S freq)) = Inl IndexError"
    using assms(4) by (auto simp: half_bins_def)
  have t: "fst (spectrogram e data fs opts)
           = [Specgram fs (nfft p)
                (if list_ge (MATPLOTLIB_VERSION e) [0, 99, 0] then pad_to p else None) (nlap p)]"
    by (rule spectrogram_trace [OF assms(1,2)])
  show ?thesis using r h t by blast
qed

theorem single_bin_index_error_witness:
  "segmentation 100 (per_lap defaults) (wlen defaults) (mult defaults)
       (int (length (replicate 128 (0::real))))
     = Inr \<lparr>nfft = 128, pad_to = Some 1024, nlap = 115\<rparr>
   \<and> (100::real) \<noteq> 0
   \<and> mlab_specgram flat_psd (detrend (replicate 128 0)) 100 128 (Some 1024) 115
       = Inr (map (\<lambda>i. [flat_psd i 0]) [0..<513],
              map (\<lambda>i. 100 / 1024 * real i) [0..<513],
              [1 / 100 * (0 + 128 / 2)])
   \<and> length [1 / 100 * (0 + 128 / 2 :: real)] = 1
   \<and> clip defaults = (Fin 0, Fin 1)
   \<and> \<not> (fless (Fin 0) (Fin 0) \<or> fless (Fin 1) (Fin 1) \<or> fge (Fin 0) (Fin 1))
   \<and> concat (fst (amplitude_transform (dbscale defaults) (map (\<lambda>i. [flat_psd i 0]) [0..<513])
                 (map (\<lambda>i. 100 / 1024 * real i) [0..<513]))) \<noteq> []
   \<and> snd (spectrogram \<lparr>MATPLOTLIB_VERSION = [1, 0, 0], specgram = mlab_specgram flat_psd\<rparr>
            (replicate 128 0) 100 defaults)
       = Inl IndexError"
proof -
  let ?e = "\<lparr>MATPLOTLIB_VERSION = [1, 0, 0], specgram = mlab_specgram flat_psd\<rparr>"
  let ?d = "replicate 128 (0::real)"
  let ?S = "map (\<lambda>i. [flat_psd i 0]) [0..<513]"
  let ?f = "map (\<lambda>i. 100 / 1024 * real i) [0..<513]"
  let ?t = "[1 / 100 * (0 + 128 / 2 :: real)]"
  have seg: "segmentation 100 (per_lap defaults) (wlen defaults) (mult defaults) (int (length ?d))
               = Inr \<lparr>nfft = 128, pad_to = Some 1024, nlap = 115\<rparr>"
    using segmentation_default_128 by (simp add: defaults_def)
  have nz: "(100::real) \<noteq> 0" by simp
  have m: "mlab_specgram flat_psd (detrend ?d) 100 128 (Some 1024) 115 = Inr (?S, ?f, ?t)"
    by (rule specgram_128) (simp add: length_detrend)
  have est: "specgram ?e (detrend ?d) 100 (nfft \<lparr>nfft = 128, pad_to = Some 1024, nlap = 115\<rparr>)
               (if list_ge (MATPLOTLIB_VERSION ?e) [0, 99, 0]
                then pad_to \<lparr>nfft = 128, pad_to = Some 1024, nlap = 115\<rparr> else None)
               (nlap \<lparr>nfft = 128, pad_to = Some 1024, nlap = 115\<rparr>)
             = Inr (?S, ?f, ?t)"
    using m by simp
  have single: "length ?t = 1 \<or> length (snd (amplitude_transform (dbscale defaults) ?S ?f)) = 1"
    by simp
  have cl: "clip defaults = (Fin 0, Fin 1)" by (simp add: defaults_def)
  have ok: "\<not> (fless (Fin 0) (Fin 0) \<or> fless (Fin 1) (Fin 1) \<or> fge (Fin 0) (Fin 1))" by simp
  have ne: "concat (fst (amplitude_transform (dbscale defaults) ?S ?f)) \<noteq> []"
    by (rule scaled_128_nonempty)
  from single_bin_index_error [OF seg nz est single cl ok ne]
  have res: "snd (spectrogram ?e ?d 100 defaults) = Inl IndexError" by blast
  have l: "length ?t = 1" by simp
  show ?thesis using seg nz m l cl ok ne res by blast
qed

theorem single_bin_index_error_counterexample:
  "raw_shape (mlab_specgram flat_psd (detrend (replicate 128 0)) 100 128 (Some 1024) 115)
     = Inr (513, 513, 1)
   \<and> fst (spectrogram \<lparr>MATPLOTLIB_VERSION = [1, 0, 0], specgram = mlab_specgram flat_psd\<rparr>
            (replicate 128 0) 100 (defaults\<lparr>clip := (Fin (1 / 2), Fin (3 / 10))\<rparr>))
       = [Specgram 100 128 (Some 1024) 115]
   \<and> snd (spectrogram \<lparr>MATPLOTLIB_VERSION = [1, 0, 0], specgram = mlab_specgram flat_psd\<rparr>
            (replicate 128 0) 100 (defaults\<lparr>clip := (Fin (1 / 2), Fin (3 / 10))\<rparr>))
       = Inl (ValueError clip_msg)
   \<and> Inl (ValueError clip_msg) \<noteq> (Inl IndexError :: error + plot_data)"
proof -
  let ?e = "\<lparr>MATPLOTLIB_VERSION = [1, 0, 0], specgram = mlab_specgram flat_psd\<rparr>"
  let ?o = "defaults\<lparr>clip := (Fin (1 / 2), Fin (3 / 10))\<rparr>"
  let ?d = "replicate 128 (0::real)"
  let ?S = "map (\<lambda>i. [flat_psd i 0]) [0..<513]"
  let ?f = "map (\<lambda>i. 100 / 1024 * real i) [0..<513]"
  let ?t = "[1 / 100 * (0 + 128 / 2 :: real)]"
  have seg: "segmentation 100 (per_lap ?o) (wlen ?o) (mult ?o) (int (length ?d))
               = Inr \<lparr>nfft = 128, pad_to = Some 1024, nlap = 115\<rparr>"
    using segmentation_default_128 by (simp add: defaults_def)
  have nz: "(100::real) \<noteq> 0" by simp
  have m: "mlab_specgram flat_psd (detrend ?d) 100 128 (Some 1024) 115 = Inr (?S, ?f, ?t)"
    by (rule specgram_128) (simp add: length_detrend)
  have sh: "raw_shape (mlab_specgram flat_psd (detrend ?d) 100 128 (Some 1024) 115)
              = Inr (513, 513, 1)"
    unfolding m by (simp add: raw_shape_def)
  have est: "specgram ?e (detrend ?d) 100 (nfft \<lparr>nfft = 128, pad_to = Some 1024, nlap = 115\<rparr>)
               (if list_ge (MATPLOTLIB_VERSION ?e) [0, 99, 0]
                then pad_to \<lparr>nfft = 128, pad_to = Some 1024, nlap = 115\<rparr> else None)
               (nlap \<lparr>nfft = 128, pad_to = Some 1024, nlap = 115\<rparr>)
             = Inr (?S, ?f, ?t)"
    using m by simp
  have cl: "clip ?o = (Fin (1 / 2), Fin (3 / 10))" by (simp add: defaults_def)
  have bad: "fless (Fin (1 / 2)) (Fin 0) \<or> fless (Fin 1) (Fin (3 / 10)) \<or> fge (Fin (1 / 2)) (Fin (3 / 10))"
    by simp
  have tr: "fst (spectrogram ?e ?d 100 ?o) = [Specgram 100 128 (Some 1024) 115]"
    using spectrogram_trace [OF seg nz, of ?e] by simp
  have res: "snd (spectrogram ?e ?d 100 ?o) = Inl (ValueError clip_msg)"
    by (rule spectrogram_invalid_clip [OF seg nz est cl bad])
  show ?thesis using sh tr res by simp
qed

end
